theory Spec2Isabelle
  imports Complex_Main
begin

section \<open>The policy vector store of vector\_store.py\<close>

text \<open>
  The development follows \<^verbatim>\<open>src/vector_store.py\<close>: the class
  \<^verbatim>\<open>PolicyVectorStore\<close> with its methods \<^verbatim>\<open>build_index\<close>,
  \<^verbatim>\<open>load_index\<close>, \<^verbatim>\<open>save_index\<close>, \<^verbatim>\<open>retrieve\<close> and
  \<^verbatim>\<open>get_context_for_query\<close>, and the helper \<^verbatim>\<open>load_jsonl\<close>.

  Conventions of the embedding:
  \<^item> a method takes the world (file system, embedding models, float32 arithmetic, effect
    trace) and the
    store object, and returns its result together with the world and the store as the
    method left them; a raised exception is \<open>Inl\<close> of the result, and the store
    returned with it holds every assignment made before the raise;
  \<^item> a float32 value is a real number; the float32 operations of the normalisation (norm,
    addition, division) are parameters of the world, since their rounding and overflow are
    not defined here; the distances of faiss are computed over the reals;
  \<^item> console output (\<^verbatim>\<open>print\<close>) and timing are not modelled;
  \<^item> the libraries are modelled by their contract: an artifact file holds the value that
    was written to it, \<^verbatim>\<open>IndexFlatL2\<close> is exhaustive search under squared Euclidean
    distance, a sentence-transformers model maps each text to one vector.
\<close>

subsection \<open>Data model\<close>

type_synonym vec = "real list"

type_synonym path = string

datatype error =
    ImportError
  | FileNotFoundError string
  | FileExistsError
  | NotADirectoryError
  | PermissionError
  | ValueError string
  | JSONDecodeError
  | UnicodeDecodeError
  | TypeError
  | KeyError string
  | IndexError
  | AttributeError
  | LoadError
  | ModelError
  | EncodeError
  | SearchError

text \<open>
  A parsed line of the corpus file. The values of an object are strings, which is what
  \<^verbatim>\<open>convert_to_jsonl.py\<close> writes. \<open>JArray\<close> lists the string elements of an
  array (no other element equals a key name); \<open>JOther\<close> is a number, a boolean or null.
\<close>

datatype jvalue =
    JObject "string \<rightharpoonup> string"
  | JString string
  | JArray "string list"
  | JOther

datatype line = Blank | Malformed | Json jvalue

text \<open>The state of a \<^verbatim>\<open>faiss.IndexFlatL2\<close>: its dimension and the vectors added.\<close>

record flat_index =
  d :: nat
  xb :: "vec list"

datatype content =
    Corpus "line list"
  | Vectors "vec list"
  | FaissIndex flat_index
  | Metadata "string \<rightharpoonup> string list"
  | Garbage

datatype event =
    ReadFile path
  | WriteFile path
  | LoadModel string
  | Encode "string list"

text \<open>
  The float32 operations used by the normalisation: \<^verbatim>\<open>np.linalg.norm\<close> of a row, the
  addition of the norm and the constant, and the division of an entry by the sum.
\<close>

record float_ops =
  np_norm :: "vec \<Rightarrow> real"
  f32_add :: "real \<Rightarrow> real \<Rightarrow> real"
  f32_div :: "real \<Rightarrow> real \<Rightarrow> real"

text \<open>
  \<open>makedirs_fails\<close> is what \<^verbatim>\<open>os.makedirs\<close> raises for a path because of the
  directories and permissions of the machine, which the map of regular files does not show
  (an ancestor that is a regular file, a directory that cannot be written).
\<close>

record world =
  have_rag :: bool
  files :: "path \<rightharpoonup> content"
  models :: "string \<rightharpoonup> (string \<Rightarrow> vec option)"
  trace :: "event list"
  makedirs_fails :: "path \<rightharpoonup> error"
  float32 :: float_ops

record store =
  model_name :: string
  model :: "(string \<Rightarrow> vec option) option"
  index :: "flat_index option"
  questions :: "string list"
  answers :: "string list"
  sections :: "string list"
  embeddings :: "vec list option"

type_synonym 'a outcome = "(error + 'a) \<times> world \<times> store"

subsection \<open>Construction and file access\<close>

definition ensure_rag_available :: "world \<Rightarrow> error + unit" where
  "ensure_rag_available w = (if have_rag w then Inr () else Inl ImportError)"

definition init :: "world \<Rightarrow> string \<Rightarrow> error + store" where
  "init w name =
     (case ensure_rag_available w of
        Inl e \<Rightarrow> Inl e
      | Inr _ \<Rightarrow>
          Inr \<lparr>model_name = name, model = None, index = None, questions = [],
               answers = [], sections = [], embeddings = None\<rparr>)"

definition path_exists :: "world \<Rightarrow> path \<Rightarrow> bool" where
  "path_exists w p = (files w p \<noteq> None)"

text \<open>\<^verbatim>\<open>os.path.join(cache_dir, name)\<close> for a relative \<open>name\<close>.\<close>

definition path_join :: "path \<Rightarrow> string \<Rightarrow> path" where
  "path_join dir name =
     (if dir = [] then name
      else if last dir = CHR ''/'' then dir @ name
      else dir @ ''/'' @ name)"

definition embeddings_path :: "path \<Rightarrow> path" where
  "embeddings_path cache_dir = path_join cache_dir ''embeddings.npz''"

definition index_path :: "path \<Rightarrow> path" where
  "index_path cache_dir = path_join cache_dir ''policy_index.index''"

definition metadata_path :: "path \<Rightarrow> path" where
  "metadata_path cache_dir = path_join cache_dir ''metadata.json''"

definition logged :: "event \<Rightarrow> world \<Rightarrow> world" where
  "logged ev w = w\<lparr>trace := trace w @ [ev]\<rparr>"

text \<open>\<^verbatim>\<open>np.load(path)['embeddings']\<close>\<close>

definition np_load :: "world \<Rightarrow> path \<Rightarrow> error + vec list" where
  "np_load w p =
     (case files w p of
        None \<Rightarrow> Inl (FileNotFoundError p)
      | Some (Vectors m) \<Rightarrow> Inr m
      | Some _ \<Rightarrow> Inl LoadError)"

text \<open>\<^verbatim>\<open>faiss.read_index(path)\<close>\<close>

definition read_index :: "world \<Rightarrow> path \<Rightarrow> error + flat_index" where
  "read_index w p =
     (case files w p of
        None \<Rightarrow> Inl (FileNotFoundError p)
      | Some (FaissIndex ix) \<Rightarrow> Inr ix
      | Some _ \<Rightarrow> Inl LoadError)"

text \<open>\<^verbatim>\<open>json.load\<close> of the metadata file.\<close>

definition json_load :: "world \<Rightarrow> path \<Rightarrow> error + (string \<rightharpoonup> string list)" where
  "json_load w p =
     (case files w p of
        None \<Rightarrow> Inl (FileNotFoundError p)
      | Some (Metadata m) \<Rightarrow> Inr m
      | Some _ \<Rightarrow> Inl JSONDecodeError)"

definition getitem :: "(string \<rightharpoonup> 'a) \<Rightarrow> string \<Rightarrow> error + 'a" where
  "getitem m k = (case m k of None \<Rightarrow> Inl (KeyError k) | Some v \<Rightarrow> Inr v)"

subsection \<open>Reading the three artifacts\<close>

text \<open>
  The same statements end the cache branch of \<^verbatim>\<open>build_index\<close> (lines 91-97)
  and \<^verbatim>\<open>load_index\<close> (lines 170-176): the fields are assigned one by one, in
  this order, so a failure leaves the earlier ones assigned.
\<close>

definition read_metadata :: "world \<Rightarrow> store \<Rightarrow> path \<Rightarrow> unit outcome" where
  "read_metadata w s p =
     (let w1 = logged (ReadFile p) w in
      case json_load w p of
        Inl e \<Rightarrow> (Inl e, w1, s)
      | Inr metadata \<Rightarrow>
          (case getitem metadata ''questions'' of
             Inl e \<Rightarrow> (Inl e, w1, s)
           | Inr qs \<Rightarrow>
               (let s1 = s\<lparr>questions := qs\<rparr> in
                case getitem metadata ''answers'' of
                  Inl e \<Rightarrow> (Inl e, w1, s1)
                | Inr as \<Rightarrow>
                    (let s2 = s1\<lparr>answers := as\<rparr> in
                     case getitem metadata ''sections'' of
                       Inl e \<Rightarrow> (Inl e, w1, s2)
                     | Inr ss \<Rightarrow> (Inr (), w1, s2\<lparr>sections := ss\<rparr>)))))"

definition read_artifacts :: "world \<Rightarrow> store \<Rightarrow> path \<Rightarrow> unit outcome" where
  "read_artifacts w s cache_dir =
     (let w1 = logged (ReadFile (embeddings_path cache_dir)) w in
      case np_load w (embeddings_path cache_dir) of
        Inl e \<Rightarrow> (Inl e, w1, s)
      | Inr m \<Rightarrow>
          (let s1 = s\<lparr>embeddings := Some m\<rparr>;
               w2 = logged (ReadFile (index_path cache_dir)) w1 in
           case read_index w (index_path cache_dir) of
             Inl e \<Rightarrow> (Inl e, w2, s1)
           | Inr ix \<Rightarrow>
               read_metadata w2 (s1\<lparr>index := Some ix\<rparr>) (metadata_path cache_dir)))"

subsection \<open>load\_index and save\_index\<close>

definition load_index :: "world \<Rightarrow> store \<Rightarrow> path \<Rightarrow> unit outcome" where
  "load_index w s cache_dir =
     (case ensure_rag_available w of
        Inl e \<Rightarrow> (Inl e, w, s)
      | Inr _ \<Rightarrow>
          if \<not> list_all (path_exists w)
                 [embeddings_path cache_dir, index_path cache_dir, metadata_path cache_dir]
          then (Inl (FileNotFoundError
                       (''Index files not found in '' @ cache_dir @ ''/. Run build_index() first.'')),
                w, s)
          else read_artifacts w s cache_dir)"

text \<open>The body of \<^verbatim>\<open>save_index\<close> is one \<^verbatim>\<open>print\<close>.\<close>

definition save_index :: "world \<Rightarrow> store \<Rightarrow> path \<Rightarrow> unit outcome" where
  "save_index w s cache_dir = (Inr (), w, s)"

subsection \<open>Reading the corpus\<close>

text \<open>
  \<^verbatim>\<open>load_jsonl\<close>: a blank line is skipped, every other line goes through
  \<^verbatim>\<open>json.loads\<close>, whose exception is not caught.
\<close>

fun load_rows :: "line list \<Rightarrow> jvalue list \<Rightarrow> error + jvalue list" where
  "load_rows [] rows = Inr rows"
| "load_rows (Blank # ls) rows = load_rows ls rows"
| "load_rows (Malformed # ls) rows = Inl JSONDecodeError"
| "load_rows (Json v # ls) rows = load_rows ls (rows @ [v])"

definition load_jsonl :: "world \<Rightarrow> path \<Rightarrow> (error + jvalue list) \<times> world" where
  "load_jsonl w p =
     (case files w p of
        None \<Rightarrow> (Inl (FileNotFoundError p), w)
      | Some (Corpus ls) \<Rightarrow> (load_rows ls [], logged (ReadFile p) w)
      | Some (Metadata m) \<Rightarrow> (Inl JSONDecodeError, logged (ReadFile p) w)
      | Some _ \<Rightarrow> (Inl UnicodeDecodeError, logged (ReadFile p) w))"

text \<open>Python's \<^verbatim>\<open>sub in text\<close> on strings.\<close>

fun is_substring :: "string \<Rightarrow> string \<Rightarrow> bool" where
  "is_substring sub [] = (sub = [])"
| "is_substring sub (c # cs) = (take (length sub) (c # cs) = sub \<or> is_substring sub cs)"

text \<open>\<^verbatim>\<open>key in item\<close>, \<^verbatim>\<open>item[key]\<close> and \<^verbatim>\<open>item.get(key, default)\<close>.\<close>

fun contains :: "string \<Rightarrow> jvalue \<Rightarrow> error + bool" where
  "contains k (JObject m) = Inr (m k \<noteq> None)"
| "contains k (JString t) = Inr (is_substring k t)"
| "contains k (JArray xs) = Inr (k \<in> set xs)"
| "contains k JOther = Inl TypeError"

fun subscript :: "jvalue \<Rightarrow> string \<Rightarrow> error + string" where
  "subscript (JObject m) k = getitem m k"
| "subscript _ k = Inl TypeError"

fun get_default :: "jvalue \<Rightarrow> string \<Rightarrow> string \<Rightarrow> error + string" where
  "get_default (JObject m) k dflt = Inr (case m k of None \<Rightarrow> dflt | Some v \<Rightarrow> v)"
| "get_default _ k dflt = Inl AttributeError"

text \<open>Python's \<^verbatim>\<open>a and b\<close> on two tests that may raise: \<open>b\<close> runs only if \<open>a\<close> holds.\<close>

definition has_both :: "jvalue \<Rightarrow> error + bool" where
  "has_both item =
     (case contains ''question'' item of
        Inl e \<Rightarrow> Inl e
      | Inr False \<Rightarrow> Inr False
      | Inr True \<Rightarrow> contains ''answer'' item)"

text \<open>The loop of lines 109-113, appending to the three lists of the store.\<close>

fun append_records :: "jvalue list \<Rightarrow> store \<Rightarrow> (error + unit) \<times> store" where
  "append_records [] s = (Inr (), s)"
| "append_records (item # items) s =
     (case has_both item of
        Inl e \<Rightarrow> (Inl e, s)
      | Inr False \<Rightarrow> append_records items s
      | Inr True \<Rightarrow>
          (case subscript item ''question'' of
             Inl e \<Rightarrow> (Inl e, s)
           | Inr q \<Rightarrow>
               (let s1 = s\<lparr>questions := questions s @ [q]\<rparr> in
                case subscript item ''answer'' of
                  Inl e \<Rightarrow> (Inl e, s1)
                | Inr a \<Rightarrow>
                    (let s2 = s1\<lparr>answers := answers s1 @ [a]\<rparr> in
                     case get_default item ''section'' ''Unknown'' of
                       Inl e \<Rightarrow> (Inl e, s2)
                     | Inr sec \<Rightarrow>
                         append_records items (s2\<lparr>sections := sections s2 @ [sec]\<rparr>)))))"

subsection \<open>The embedding model and normalisation\<close>

definition load_model :: "world \<Rightarrow> store \<Rightarrow> unit outcome" where
  "load_model w s =
     (case model s of
        Some m \<Rightarrow> (Inr (), w, s)
      | None \<Rightarrow>
          (let w1 = logged (LoadModel (model_name s)) w in
           case models w (model_name s) of
             None \<Rightarrow> (Inl ModelError, w1, s)
           | Some m \<Rightarrow> (Inr (), w1, s\<lparr>model := Some m\<rparr>)))"

fun encode_texts :: "(string \<Rightarrow> vec option) \<Rightarrow> string list \<Rightarrow> vec list option" where
  "encode_texts m [] = Some []"
| "encode_texts m (t # ts) =
     (case m t of
        None \<Rightarrow> None
      | Some v \<Rightarrow> (case encode_texts m ts of None \<Rightarrow> None | Some vs \<Rightarrow> Some (v # vs)))"

text \<open>\<^verbatim>\<open>self.model.encode(texts, convert_to_numpy=True)\<close>\<close>

definition model_encode :: "world \<Rightarrow> store \<Rightarrow> string list \<Rightarrow> (error + vec list) \<times> world" where
  "model_encode w s texts =
     (case model s of
        None \<Rightarrow> (Inl AttributeError, w)
      | Some m \<Rightarrow>
          (case encode_texts m texts of
             None \<Rightarrow> (Inl EncodeError, logged (Encode texts) w)
           | Some vs \<Rightarrow> (Inr vs, logged (Encode texts) w)))"

text \<open>
  One row of \<^verbatim>\<open>m / (np.linalg.norm(m, axis=1, keepdims=True) + 1e-12)\<close>, the
  expression of line 135 (stored vectors) and of line 195 (query vector), in the float32
  operations of the machine.
\<close>

definition normalize_row :: "float_ops \<Rightarrow> vec \<Rightarrow> vec" where
  "normalize_row fo v = map (\<lambda>x. f32_div fo x (f32_add fo (np_norm fo v) (1 / 10 ^ 12))) v"

definition normalize_rows :: "float_ops \<Rightarrow> vec list \<Rightarrow> vec list" where
  "normalize_rows fo m = map (normalize_row fo) m"

text \<open>\<^verbatim>\<open>m.shape[1]\<close> of the matrix returned by \<^verbatim>\<open>encode\<close>.\<close>

definition shape1 :: "vec list \<Rightarrow> error + nat" where
  "shape1 m = (case m of [] \<Rightarrow> Inl IndexError | v # _ \<Rightarrow> Inr (length v))"

subsection \<open>The flat index\<close>

definition IndexFlatL2 :: "nat \<Rightarrow> flat_index" where
  "IndexFlatL2 dimension = \<lparr>d = dimension, xb = []\<rparr>"

definition add :: "flat_index \<Rightarrow> vec list \<Rightarrow> flat_index" where
  "add ix m = ix\<lparr>xb := xb ix @ m\<rparr>"

definition ntotal :: "flat_index \<Rightarrow> nat" where
  "ntotal ix = length (xb ix)"

definition l2_sqr :: "vec \<Rightarrow> vec \<Rightarrow> real" where
  "l2_sqr x y = sum_list (map (\<lambda>(a, b). (a - b) * (a - b)) (zip x y))"

text \<open>The largest finite float32, the distance faiss puts in a slot it could not fill.\<close>

definition FLT_MAX :: real where
  "FLT_MAX = 340282346638528859811704183484516925440"

text \<open>
  \<^verbatim>\<open>IndexFlatL2.search\<close> for one query row: the labels of the stored vectors in
  ascending squared distance, cut to \<open>k\<close>; the result always has \<open>k\<close> slots, and a slot
  with no neighbour (\<open>k\<close> larger than \<open>ntotal\<close>) has label \<open>-1\<close> and distance
  \<open>FLT_MAX\<close>.
\<close>

definition search_row :: "flat_index \<Rightarrow> vec \<Rightarrow> nat \<Rightarrow> (int \<times> real) list" where
  "search_row ix q k =
     (let ranked = sort_key snd (zip (map int [0..<ntotal ix]) (map (l2_sqr q) (xb ix)));
          found = take k ranked
      in found @ replicate (k - length found) (- 1, FLT_MAX))"

text \<open>
  \<^verbatim>\<open>index.search(xq, k)\<close> returns the pair \<^verbatim>\<open>(distances, indices)\<close>, one row per
  query; it rejects \<open>k \<le> 0\<close> and a query of another dimension.
\<close>

definition search :: "flat_index \<Rightarrow> vec list \<Rightarrow> int \<Rightarrow> error + (real list list \<times> int list list)" where
  "search ix xq k =
     (if k \<le> 0 \<or> \<not> list_all (\<lambda>q. length q = d ix) xq then Inl SearchError
      else Inr (map (\<lambda>q. map snd (search_row ix q (nat k))) xq,
                map (\<lambda>q. map fst (search_row ix q (nat k))) xq))"

subsection \<open>build\_index\<close>

text \<open>
  \<^verbatim>\<open>os.makedirs(cache_dir, exist_ok=True)\<close> fails on the empty path, on a path that is
  a regular file, and wherever the directories and permissions of the machine make it fail
  (\<^verbatim>\<open>NotADirectoryError\<close> under an ancestor that is a regular file,
  \<^verbatim>\<open>PermissionError\<close>); otherwise it makes directories, which changes no regular
  file.
\<close>

definition makedirs :: "world \<Rightarrow> path \<Rightarrow> error + unit" where
  "makedirs w dir =
     (if dir = [] then Inl (FileNotFoundError dir)
      else if path_exists w dir then Inl FileExistsError
      else (case makedirs_fails w dir of Some e \<Rightarrow> Inl e | None \<Rightarrow> Inr ()))"

definition write_file :: "path \<Rightarrow> content \<Rightarrow> world \<Rightarrow> world" where
  "write_file p c w = logged (WriteFile p) (w\<lparr>files := (files w)(p \<mapsto> c)\<rparr>)"

text \<open>Lines 147-155: the three artifacts are written from the fields of the store.\<close>

definition write_artifacts :: "world \<Rightarrow> vec list \<Rightarrow> flat_index \<Rightarrow> store \<Rightarrow> path \<Rightarrow> world" where
  "write_artifacts w m ix s cache_dir =
     write_file (metadata_path cache_dir)
       (Metadata [''questions'' \<mapsto> questions s, ''answers'' \<mapsto> answers s,
                  ''sections'' \<mapsto> sections s])
       (write_file (index_path cache_dir) (FaissIndex ix)
          (write_file (embeddings_path cache_dir) (Vectors m) w))"

text \<open>\<^verbatim>\<open>f"passage: {q}"\<close>\<close>

definition passage :: "string \<Rightarrow> string" where
  "passage q = ''passage: '' @ q"

text \<open>Lines 120-156, entered once the three lists hold at least one record.\<close>

definition embed_and_save :: "world \<Rightarrow> store \<Rightarrow> path \<Rightarrow> unit outcome" where
  "embed_and_save w s cache_dir =
     (case load_model w s of
        (Inl e, w1, s1) \<Rightarrow> (Inl e, w1, s1)
      | (Inr _, w1, s1) \<Rightarrow>
          (case model_encode w1 s1 (map passage (questions s1)) of
             (Inl e, w2) \<Rightarrow> (Inl e, w2, s1)
           | (Inr raw, w2) \<Rightarrow>
               (let m = normalize_rows (float32 w2) raw;
                    s2 = s1\<lparr>embeddings := Some m\<rparr> in
                case shape1 m of
                  Inl e \<Rightarrow> (Inl e, w2, s2)
                | Inr dimension \<Rightarrow>
                    (let ix = add (IndexFlatL2 dimension) m;
                         s3 = s2\<lparr>index := Some ix\<rparr>
                     in (Inr (), write_artifacts w2 m ix s3 cache_dir, s3)))))"

text \<open>Lines 101-118 and the rest of the method.\<close>

definition rebuild :: "world \<Rightarrow> store \<Rightarrow> path \<Rightarrow> path \<Rightarrow> unit outcome" where
  "rebuild w s policies_file cache_dir =
     (case load_jsonl w policies_file of
        (Inl e, w1) \<Rightarrow> (Inl e, w1, s)
      | (Inr policy_data, w1) \<Rightarrow>
          (case append_records policy_data (s\<lparr>questions := [], answers := [], sections := []\<rparr>) of
             (Inl e, s1) \<Rightarrow> (Inl e, w1, s1)
           | (Inr _, s1) \<Rightarrow>
               if questions s1 = []
               then (Inl (ValueError ''No Q&A pairs found in policies file''), w1, s1)
               else embed_and_save w1 s1 cache_dir))"

definition cache_complete :: "world \<Rightarrow> path \<Rightarrow> bool" where
  "cache_complete w cache_dir =
     (path_exists w (embeddings_path cache_dir) \<and> path_exists w (index_path cache_dir)
      \<and> path_exists w (metadata_path cache_dir))"

definition build_index :: "world \<Rightarrow> store \<Rightarrow> path \<Rightarrow> path \<Rightarrow> unit outcome" where
  "build_index w s policies_file cache_dir =
     (case ensure_rag_available w of
        Inl e \<Rightarrow> (Inl e, w, s)
      | Inr _ \<Rightarrow>
          if \<not> path_exists w policies_file
          then (Inl (FileNotFoundError (''Policies file not found: '' @ policies_file)), w, s)
          else (case makedirs w cache_dir of
                  Inl e \<Rightarrow> (Inl e, w, s)
                | Inr _ \<Rightarrow>
                    if cache_complete w cache_dir then read_artifacts w s cache_dir
                    else rebuild w s policies_file cache_dir))"

subsection \<open>retrieve\<close>

record result =
  question :: string
  answer :: string
  section_name :: string
  distance :: real
  rank :: nat

text \<open>Python's \<^verbatim>\<open>xs[i]\<close>: a negative index counts from the end.\<close>

definition list_get :: "'a list \<Rightarrow> int \<Rightarrow> error + 'a" where
  "list_get xs i =
     (if 0 \<le> i \<and> i < int (length xs) then Inr (xs ! nat i)
      else if i < 0 \<and> - int (length xs) \<le> i then Inr (xs ! nat (int (length xs) + i))
      else Inl IndexError)"

text \<open>
  The loop of lines 201-210 over \<^verbatim>\<open>enumerate(zip(indices[0], distances[0]))\<close>;
  \<open>pos\<close> is the counter of \<^verbatim>\<open>enumerate\<close>.
\<close>

fun format_results :: "store \<Rightarrow> nat \<Rightarrow> (int \<times> real) list \<Rightarrow> result list \<Rightarrow> error + result list" where
  "format_results s pos [] results = Inr results"
| "format_results s pos ((idx, dst) # rest) results =
     (if idx < int (length (questions s)) then
        (case list_get (questions s) idx of
           Inl e \<Rightarrow> Inl e
         | Inr q \<Rightarrow>
             (case list_get (answers s) idx of
                Inl e \<Rightarrow> Inl e
              | Inr a \<Rightarrow>
                  (case list_get (sections s) idx of
                     Inl e \<Rightarrow> Inl e
                   | Inr sec \<Rightarrow>
                       format_results s (pos + 1) rest
                         (results @ [\<lparr>question = q, answer = a, section_name = sec,
                                      distance = dst, rank = pos + 1\<rparr>]))))
      else format_results s (pos + 1) rest results)"

text \<open>\<^verbatim>\<open>f"query: {query}"\<close>\<close>

definition query_with_prefix :: "string \<Rightarrow> string" where
  "query_with_prefix query = ''query: '' @ query"

definition retrieve :: "world \<Rightarrow> store \<Rightarrow> string \<Rightarrow> int \<Rightarrow> result list outcome" where
  "retrieve w s query top_k =
     (case index s of
        None \<Rightarrow>
          (Inl (ValueError ''Index not loaded. Call build_index() or load_index() first.''), w, s)
      | Some ix \<Rightarrow>
          (case load_model w s of
             (Inl e, w1, s1) \<Rightarrow> (Inl e, w1, s1)
           | (Inr _, w1, s1) \<Rightarrow>
               (case model_encode w1 s1 [query_with_prefix query] of
                  (Inl e, w2) \<Rightarrow> (Inl e, w2, s1)
                | (Inr raw, w2) \<Rightarrow>
                    (case search ix (normalize_rows (float32 w2) raw) top_k of
                       Inl e \<Rightarrow> (Inl e, w2, s1)
                     | Inr (distances, indices) \<Rightarrow>
                         (case (list_get indices 0, list_get distances 0) of
                            (Inr is, Inr ds) \<Rightarrow> (format_results s1 0 (zip is ds) [], w2, s1)
                          | _ \<Rightarrow> (Inl IndexError, w2, s1))))))"

subsection \<open>get\_context\_for\_query\<close>





subsection \<open>Predicates used in the statements\<close>

text \<open>
  All three artifacts parse: the vectors file holds a matrix, the index file an index, and
  the metadata file an object with the keys \<open>questions\<close>, \<open>answers\<close> and \<open>sections\<close>.
\<close>

definition cache_readable :: "world \<Rightarrow> path \<Rightarrow> bool" where
  "cache_readable w cache_dir =
     (case (files w (embeddings_path cache_dir), files w (index_path cache_dir),
            files w (metadata_path cache_dir)) of
        (Some (Vectors m), Some (FaissIndex ix), Some (Metadata md)) \<Rightarrow>
          md ''questions'' \<noteq> None \<and> md ''answers'' \<noteq> None \<and> md ''sections'' \<noteq> None
      | _ \<Rightarrow> False)"

text \<open>The events a method added to the trace.\<close>

definition new_events :: "world \<Rightarrow> world \<Rightarrow> event list" where
  "new_events w w' = drop (length (trace w)) (trace w')"

definition cache_read :: "path \<Rightarrow> event \<Rightarrow> bool" where
  "cache_read cache_dir ev =
     (ev = ReadFile (embeddings_path cache_dir) \<or> ev = ReadFile (index_path cache_dir)
      \<or> ev = ReadFile (metadata_path cache_dir))"

text \<open>
  The usable records of a corpus, described line by line: the objects that have both a
  \<open>question\<close> and an \<open>answer\<close>, each with its section or \<open>Unknown\<close>.
\<close>

fun json_rows :: "line list \<Rightarrow> jvalue list" where
  "json_rows [] = []"
| "json_rows (Json v # ls) = v # json_rows ls"
| "json_rows (_ # ls) = json_rows ls"

fun record_of :: "jvalue \<Rightarrow> (string \<times> string \<times> string) option" where
  "record_of (JObject m) =
     (case (m ''question'', m ''answer'') of
        (Some q, Some a) \<Rightarrow> Some (q, a, case m ''section'' of None \<Rightarrow> ''Unknown'' | Some v \<Rightarrow> v)
      | _ \<Rightarrow> None)"
| "record_of _ = None"

definition usable_records :: "line list \<Rightarrow> (string \<times> string \<times> string) list" where
  "usable_records ls = List.map_filter record_of (json_rows ls)"

text \<open>
  The rows on which the loop of \<^verbatim>\<open>build_index\<close> raises \<^verbatim>\<open>TypeError\<close>:
  a number, boolean or null (no \<^verbatim>\<open>in\<close>), and a string or array that passes both
  membership tests (no subscript by a key).
\<close>

fun type_error_row :: "jvalue \<Rightarrow> bool" where
  "type_error_row (JObject m) = False"
| "type_error_row (JString t) = (is_substring ''question'' t \<and> is_substring ''answer'' t)"
| "type_error_row (JArray xs) = (''question'' \<in> set xs \<and> ''answer'' \<in> set xs)"
| "type_error_row JOther = True"

text \<open>
  The model field of a store is unset or holds the model of the store's name: the
  constructor leaves it unset and \<^verbatim>\<open>_load_model\<close> is the only assignment.
\<close>

definition model_consistent :: "world \<Rightarrow> store \<Rightarrow> bool" where
  "model_consistent w s = (model s = None \<or> model s = models w (model_name s))"

subsection \<open>Example inputs\<close>

text \<open>
  Float32 arithmetic as far as the examples use it. Their one embedding is \<open>[1, 0]\<close>:
  its norm is 1, \<open>1 + 10\<^sup>-\<^sup>1\<^sup>2\<close> rounds to 1, and a division by 1 is exact, so the
  normalised row is \<open>[1, 0]\<close> again.
\<close>

definition pet_float32 :: float_ops where
  "pet_float32 = \<lparr>np_norm = (\<lambda>v. 1), f32_add = (\<lambda>a b. a), f32_div = (\<lambda>a b. a / b)\<rparr>"

definition fresh_store :: store where
  "fresh_store =
     \<lparr>model_name = ''all-MiniLM-L6-v2'', model = None, index = None, questions = [],
      answers = [], sections = [], embeddings = None\<rparr>"

definition pet_index :: flat_index where
  "pet_index = \<lparr>d = 2, xb = [[1, 0]]\<rparr>"

text \<open>A cache directory whose metadata file was deleted.\<close>

definition world_no_metadata :: world where
  "world_no_metadata =
     \<lparr>have_rag = True,
      files = [''vector_index/embeddings.npz'' \<mapsto> Vectors [[1, 0]],
               ''vector_index/policy_index.index'' \<mapsto> FaissIndex pet_index],
      models = Map.empty, trace = [], makedirs_fails = Map.empty, float32 = pet_float32\<rparr>"

definition pet_metadata :: "string \<rightharpoonup> string list" where
  "pet_metadata =
     [''questions'' \<mapsto> [''Can I bring a pet?''],
      ''answers'' \<mapsto> [''Yes, in-cabin pets allowed for a fee.''],
      ''sections'' \<mapsto> [''Pets'']]"

text \<open>A complete cache directory over one record.\<close>

definition world_cached :: world where
  "world_cached =
     \<lparr>have_rag = True,
      files = [''vector_index/embeddings.npz'' \<mapsto> Vectors [[1, 0]],
               ''vector_index/policy_index.index'' \<mapsto> FaissIndex pet_index,
               ''vector_index/metadata.json'' \<mapsto> Metadata pet_metadata],
      models = Map.empty, trace = [], makedirs_fails = Map.empty, float32 = pet_float32\<rparr>"

text \<open>A complete cache directory whose metadata has two questions and one answer.\<close>

definition world_mismatch :: world where
  "world_mismatch =
     \<lparr>have_rag = True,
      files = [''vector_index/embeddings.npz'' \<mapsto> Vectors [[1, 0]],
               ''vector_index/policy_index.index'' \<mapsto> FaissIndex pet_index,
               ''vector_index/metadata.json'' \<mapsto>
                 Metadata [''questions'' \<mapsto> [''Can I bring a pet?'', ''What is checked bag fee?''],
                           ''answers'' \<mapsto> [''Yes, in-cabin pets allowed for a fee.''],
                           ''sections'' \<mapsto> [''Pets'']]],
      models = Map.empty, trace = [], makedirs_fails = Map.empty, float32 = pet_float32\<rparr>"

definition pet_model :: "string \<Rightarrow> vec option" where
  "pet_model text = Some [1, 0]"

definition pet_record :: jvalue where
  "pet_record =
     JObject [''question'' \<mapsto> ''Can I bring a pet?'',
              ''answer'' \<mapsto> ''Yes, in-cabin pets allowed for a fee.'',
              ''section'' \<mapsto> ''Pets'']"

text \<open>A corpus of one record and no cache directory yet.\<close>

definition world_corpus :: world where
  "world_corpus =
     \<lparr>have_rag = True,
      files = [''policies.jsonl'' \<mapsto> Corpus [Json pet_record]],
      models = [''all-MiniLM-L6-v2'' \<mapsto> pet_model], trace = [], makedirs_fails = Map.empty, float32 = pet_float32\<rparr>"

text \<open>The same corpus beside a complete cache directory.\<close>

definition world_corpus_cached :: world where
  "world_corpus_cached =
     \<lparr>have_rag = True,
      files = [''policies.jsonl'' \<mapsto> Corpus [Json pet_record],
               ''vector_index/embeddings.npz'' \<mapsto> Vectors [[1, 0]],
               ''vector_index/policy_index.index'' \<mapsto> FaissIndex pet_index,
               ''vector_index/metadata.json'' \<mapsto> Metadata pet_metadata],
      models = [''all-MiniLM-L6-v2'' \<mapsto> pet_model], trace = [], makedirs_fails = Map.empty, float32 = pet_float32\<rparr>"

text \<open>A corpus whose first line is not JSON.\<close>

definition world_malformed :: world where
  "world_malformed =
     \<lparr>have_rag = True,
      files = [''policies.jsonl'' \<mapsto> Corpus [Malformed, Json pet_record]],
      models = [''all-MiniLM-L6-v2'' \<mapsto> pet_model], trace = [], makedirs_fails = Map.empty, float32 = pet_float32\<rparr>"

text \<open>A corpus beside a complete cache directory with two questions and one answer.\<close>

definition world_corpus_mismatch :: world where
  "world_corpus_mismatch =
     \<lparr>have_rag = True,
      files = [''policies.jsonl'' \<mapsto> Corpus [Json pet_record],
               ''vector_index/embeddings.npz'' \<mapsto> Vectors [[1, 0]],
               ''vector_index/policy_index.index'' \<mapsto> FaissIndex pet_index,
               ''vector_index/metadata.json'' \<mapsto>
                 Metadata [''questions'' \<mapsto> [''Can I bring a pet?'', ''What is checked bag fee?''],
                           ''answers'' \<mapsto> [''Yes, in-cabin pets allowed for a fee.''],
                           ''sections'' \<mapsto> [''Pets'']]],
      models = [''all-MiniLM-L6-v2'' \<mapsto> pet_model], trace = [], makedirs_fails = Map.empty, float32 = pet_float32\<rparr>"

text \<open>The store and the world after \<^verbatim>\<open>build_index\<close> on \<open>world_corpus\<close>.\<close>

definition pet_built_index :: flat_index where
  "pet_built_index = \<lparr>d = 2, xb = [[1, 0]]\<rparr>"

definition store_built :: store where
  "store_built =
     \<lparr>model_name = ''all-MiniLM-L6-v2'', model = Some pet_model,
      index = Some pet_built_index,
      questions = [''Can I bring a pet?''],
      answers = [''Yes, in-cabin pets allowed for a fee.''],
      sections = [''Pets''], embeddings = Some [[1, 0]]\<rparr>"

definition world_built :: world where
  "world_built =
     \<lparr>have_rag = True,
      files = [''policies.jsonl'' \<mapsto> Corpus [Json pet_record],
               ''vector_index/embeddings.npz'' \<mapsto> Vectors [[1, 0]],
               ''vector_index/policy_index.index'' \<mapsto> FaissIndex pet_built_index,
               ''vector_index/metadata.json'' \<mapsto> Metadata pet_metadata],
      models = [''all-MiniLM-L6-v2'' \<mapsto> pet_model],
      trace = [ReadFile ''policies.jsonl'', LoadModel ''all-MiniLM-L6-v2'',
               Encode [''passage: Can I bring a pet?''],
               WriteFile ''vector_index/embeddings.npz'',
               WriteFile ''vector_index/policy_index.index'',
               WriteFile ''vector_index/metadata.json''],
      makedirs_fails = Map.empty, float32 = pet_float32\<rparr>"

text \<open>A corpus with a blank line and an object that has no answer.\<close>

definition world_no_pairs :: world where
  "world_no_pairs =
     \<lparr>have_rag = True,
      files = [''policies.jsonl'' \<mapsto>
                 Corpus [Blank, Json (JObject [''question'' \<mapsto> ''Can I bring a pet?''])]],
      models = [''all-MiniLM-L6-v2'' \<mapsto> pet_model], trace = [], makedirs_fails = Map.empty, float32 = pet_float32\<rparr>"


text \<open>A corpus and a complete cache in the working directory itself (cache directory \<open>''\<close>).\<close>

definition world_flat :: world where
  "world_flat =
     \<lparr>have_rag = True,
      files = [''policies.jsonl'' \<mapsto> Corpus [Json pet_record],
               ''embeddings.npz'' \<mapsto> Vectors [[1, 0]],
               ''policy_index.index'' \<mapsto> FaissIndex pet_index,
               ''metadata.json'' \<mapsto> Metadata pet_metadata],
      models = [''all-MiniLM-L6-v2'' \<mapsto> pet_model],
      trace = [], makedirs_fails = Map.empty, float32 = pet_float32\<rparr>"



section \<open>Properties\<close>

subsection \<open>Reading the cache\<close>

lemma files_logged: "files (logged ev w) = files w"
  by (simp add: logged_def)

lemma artifact_paths:
  "embeddings_path ''vector_index'' = ''vector_index/embeddings.npz''"
  "index_path ''vector_index'' = ''vector_index/policy_index.index''"
  "metadata_path ''vector_index'' = ''vector_index/metadata.json''"
  by (simp_all add: embeddings_path_def index_path_def metadata_path_def path_join_def)

lemma read_metadata_ok:
  assumes "files w p = Some (Metadata md)"
    and "md ''questions'' = Some qs" and "md ''answers'' = Some as" and "md ''sections'' = Some ss"
  shows "read_metadata w s p =
           (Inr (), logged (ReadFile p) w, s\<lparr>questions := qs, answers := as, sections := ss\<rparr>)"
  using assms by (simp add: read_metadata_def json_load_def getitem_def)

lemma read_artifacts_ok:
  assumes "files w (embeddings_path c) = Some (Vectors m)"
    and "files w (index_path c) = Some (FaissIndex ix)"
    and "files w (metadata_path c) = Some (Metadata md)"
    and "md ''questions'' = Some qs" and "md ''answers'' = Some as" and "md ''sections'' = Some ss"
  shows "read_artifacts w s c =
           (Inr (),
            logged (ReadFile (metadata_path c))
              (logged (ReadFile (index_path c)) (logged (ReadFile (embeddings_path c)) w)),
            s\<lparr>embeddings := Some m, index := Some ix, questions := qs, answers := as,
               sections := ss\<rparr>)"
  using assms
  by (simp add: read_artifacts_def np_load_def read_index_def Let_def files_logged
      read_metadata_ok [where md = md and qs = qs and as = as and ss = ss])

lemma read_artifacts_success_iff:
  "fst (read_artifacts w s c) = Inr () \<longleftrightarrow> cache_readable w c"
  by (auto simp: read_artifacts_def read_metadata_def np_load_def read_index_def json_load_def
      getitem_def cache_readable_def Let_def logged_def
      split: option.splits content.splits sum.splits)

lemma load_index_absent:
  assumes "have_rag w" and "\<not> cache_complete w c"
  shows "load_index w s c =
           (Inl (FileNotFoundError
                   (''Index files not found in '' @ c @ ''/. Run build_index() first.'')), w, s)"
  using assms by (auto simp: load_index_def ensure_rag_available_def cache_complete_def)

lemma load_index_present:
  assumes "have_rag w" and "cache_complete w c"
  shows "load_index w s c = read_artifacts w s c"
  using assms by (auto simp: load_index_def ensure_rag_available_def cache_complete_def)

lemma cache_readable_complete: "cache_readable w c \<Longrightarrow> cache_complete w c"
  unfolding cache_readable_def cache_complete_def path_exists_def
  by (cases "files w (embeddings_path c)"; cases "files w (index_path c)";
      cases "files w (metadata_path c)") (simp_all split: content.splits)

text \<open>
  C10. \<^verbatim>\<open>save_index\<close> is a no-op: for every world, store and cache directory it
  returns normally, and the file system, the effect trace and every field of the store
  are as they were.
\<close>

theorem save_index_changes_nothing:
  "fst (save_index w s cache_dir) = Inr ()
   \<and> fst (snd (save_index w s cache_dir)) = w
   \<and> snd (snd (save_index w s cache_dir)) = s"
  by (simp add: save_index_def)

text \<open>
  C2. Where the dependencies are importable (no store object exists otherwise): if at least
  one of the three artifacts is absent, \<^verbatim>\<open>load_index\<close> raises
  \<^verbatim>\<open>FileNotFoundError\<close> and leaves the world and every field of the store as they
  were, so a store that had no index still has none; if the three artifacts are present and
  parse, it returns normally with \<open>embeddings\<close>, \<open>index\<close>, \<open>questions\<close>,
  \<open>answers\<close> and \<open>sections\<close> set to the stored values.
\<close>

theorem load_index_absent_or_readable:
  assumes "have_rag w"
  shows "(\<not> cache_complete w c \<longrightarrow>
            load_index w s c =
              (Inl (FileNotFoundError
                      (''Index files not found in '' @ c @ ''/. Run build_index() first.'')), w, s)
            \<and> (index s = None \<longrightarrow> index (snd (snd (load_index w s c))) = None))
       \<and> (files w (embeddings_path c) = Some (Vectors m)
            \<and> files w (index_path c) = Some (FaissIndex ix)
            \<and> files w (metadata_path c) = Some (Metadata md)
            \<and> md ''questions'' = Some qs \<and> md ''answers'' = Some as
            \<and> md ''sections'' = Some ss \<longrightarrow>
            fst (load_index w s c) = Inr ()
            \<and> snd (snd (load_index w s c)) =
                s\<lparr>embeddings := Some m, index := Some ix, questions := qs, answers := as,
                   sections := ss\<rparr>)"
proof (intro conjI impI)
  assume "\<not> cache_complete w c"
  with assms show a: "load_index w s c =
      (Inl (FileNotFoundError
              (''Index files not found in '' @ c @ ''/. Run build_index() first.'')), w, s)"
    by (rule load_index_absent)
  assume "index s = None"
  with a show "index (snd (snd (load_index w s c))) = None"
    by simp
next
  assume r: "files w (embeddings_path c) = Some (Vectors m)
            \<and> files w (index_path c) = Some (FaissIndex ix)
            \<and> files w (metadata_path c) = Some (Metadata md)
            \<and> md ''questions'' = Some qs \<and> md ''answers'' = Some as
            \<and> md ''sections'' = Some ss"
  then have "cache_complete w c"
    by (simp add: cache_complete_def path_exists_def)
  with assms have "load_index w s c = read_artifacts w s c"
    by (rule load_index_present)
  with r read_artifacts_ok [of w c m ix md qs as ss s]
  show "fst (load_index w s c) = Inr ()"
    and "snd (snd (load_index w s c)) =
                s\<lparr>embeddings := Some m, index := Some ix, questions := qs, answers := as,
                   sections := ss\<rparr>"
    by simp_all
qed

theorem load_index_absent_or_readable_witness:
  "have_rag world_no_metadata
   \<and> \<not> cache_complete world_no_metadata ''vector_index''
   \<and> fst (load_index world_no_metadata fresh_store ''vector_index'') =
        Inl (FileNotFoundError ''Index files not found in vector_index/. Run build_index() first.'')
   \<and> snd (snd (load_index world_no_metadata fresh_store ''vector_index'')) = fresh_store
   \<and> index (snd (snd (load_index world_no_metadata fresh_store ''vector_index''))) = None
   \<and> have_rag world_cached
   \<and> fst (load_index world_cached fresh_store ''vector_index'') = Inr ()
   \<and> questions (snd (snd (load_index world_cached fresh_store ''vector_index''))) =
        [''Can I bring a pet?'']
   \<and> index (snd (snd (load_index world_cached fresh_store ''vector_index''))) = Some pet_index"
proof -
  have h1: "have_rag world_no_metadata"
    by (simp add: world_no_metadata_def)
  have n1: "\<not> cache_complete world_no_metadata ''vector_index''"
    by (simp add: cache_complete_def path_exists_def artifact_paths world_no_metadata_def)
  have i1: "index fresh_store = None"
    by (simp add: fresh_store_def)
  have h2: "have_rag world_cached"
    by (simp add: world_cached_def)
  have f2: "files world_cached (embeddings_path ''vector_index'') = Some (Vectors [[1, 0]])
            \<and> files world_cached (index_path ''vector_index'') = Some (FaissIndex pet_index)
            \<and> files world_cached (metadata_path ''vector_index'') = Some (Metadata pet_metadata)
            \<and> pet_metadata ''questions'' = Some [''Can I bring a pet?'']
            \<and> pet_metadata ''answers'' = Some [''Yes, in-cabin pets allowed for a fee.'']
            \<and> pet_metadata ''sections'' = Some [''Pets'']"
    by (simp add: artifact_paths world_cached_def pet_metadata_def)
  from load_index_absent_or_readable [OF h1, where c = "''vector_index''" and s = fresh_store] n1 i1
  have a: "load_index world_no_metadata fresh_store ''vector_index'' =
             (Inl (FileNotFoundError
                     (''Index files not found in '' @ ''vector_index''
                        @ ''/. Run build_index() first.'')), world_no_metadata, fresh_store)"
    by blast
  from load_index_absent_or_readable [OF h2, where c = "''vector_index''" and m = "[[1, 0]]"
      and ix = pet_index and md = pet_metadata and qs = "[''Can I bring a pet?'']"
      and as = "[''Yes, in-cabin pets allowed for a fee.'']" and ss = "[''Pets'']"
      and s = fresh_store] f2
  have b: "fst (load_index world_cached fresh_store ''vector_index'') = Inr ()
           \<and> snd (snd (load_index world_cached fresh_store ''vector_index'')) =
               fresh_store\<lparr>embeddings := Some [[1, 0]], index := Some pet_index,
                 questions := [''Can I bring a pet?''],
                 answers := [''Yes, in-cabin pets allowed for a fee.''],
                 sections := [''Pets'']\<rparr>"
    by blast
  from h1 n1 a i1 h2 b show ?thesis
    by simp
qed

lemma readable_metadata:
  assumes "cache_readable w c"
  obtains m ix md qs as ss where "files w (embeddings_path c) = Some (Vectors m)"
    and "files w (index_path c) = Some (FaissIndex ix)"
    and "files w (metadata_path c) = Some (Metadata md)"
    and "md ''questions'' = Some qs" and "md ''answers'' = Some as"
    and "md ''sections'' = Some ss"
  using assms unfolding cache_readable_def
  by (cases "files w (embeddings_path c)"; cases "files w (index_path c)";
      cases "files w (metadata_path c)") (auto split: content.splits)

text \<open>
  C3 as stated asks \<^verbatim>\<open>load_index\<close> to reject metadata whose three arrays differ
  in length. It does not: on a complete cache with two questions, one answer and one section
  it returns normally and the store holds arrays of lengths 2, 1 and 1.
\<close>

theorem load_index_mismatch_counterexample:
  "cache_complete world_mismatch ''vector_index''
   \<and> fst (load_index world_mismatch fresh_store ''vector_index'') = Inr ()
   \<and> length (questions (snd (snd (load_index world_mismatch fresh_store ''vector_index'')))) = 2
   \<and> length (answers (snd (snd (load_index world_mismatch fresh_store ''vector_index'')))) = 1
   \<and> length (sections (snd (snd (load_index world_mismatch fresh_store ''vector_index'')))) = 1"
  by (simp add: cache_complete_def path_exists_def artifact_paths world_mismatch_def
      load_index_def ensure_rag_available_def read_artifacts_def np_load_def read_index_def
      read_metadata_def json_load_def getitem_def logged_def Let_def)

text \<open>
  C3, amended. \<^verbatim>\<open>load_index\<close> compares no lengths: where the dependencies are
  importable it returns normally exactly when the three artifacts are present and parse
  (the metadata having its three keys), and the three arrays of the store are then the
  stored ones, whatever their lengths.
\<close>

theorem load_index_succeeds_iff_readable:
  assumes "have_rag w"
  shows "(fst (load_index w s c) = Inr ()) = cache_readable w c
         \<and> (\<forall>md. cache_readable w c \<and> files w (metadata_path c) = Some (Metadata md) \<longrightarrow>
                md ''questions'' = Some (questions (snd (snd (load_index w s c))))
              \<and> md ''answers'' = Some (answers (snd (snd (load_index w s c))))
              \<and> md ''sections'' = Some (sections (snd (snd (load_index w s c)))))"
proof (intro conjI allI impI)
  show "(fst (load_index w s c) = Inr ()) = cache_readable w c"
  proof (cases "cache_complete w c")
    case True
    with assms show ?thesis
      by (simp add: load_index_present read_artifacts_success_iff)
  next
    case False
    with assms cache_readable_complete [of w c] show ?thesis
      by (auto simp: load_index_absent)
  qed
next
  fix md
  assume a: "cache_readable w c \<and> files w (metadata_path c) = Some (Metadata md)"
  then obtain m ix md' qs as ss where f: "files w (embeddings_path c) = Some (Vectors m)"
    "files w (index_path c) = Some (FaissIndex ix)"
    "files w (metadata_path c) = Some (Metadata md')"
    "md' ''questions'' = Some qs" "md' ''answers'' = Some as" "md' ''sections'' = Some ss"
    by (blast elim: readable_metadata)
  with a have e: "md' = md"
    by simp
  from a assms have "load_index w s c = read_artifacts w s c"
    by (simp add: load_index_present cache_readable_complete)
  with read_artifacts_ok [OF f, of s] e f
  show "md ''questions'' = Some (questions (snd (snd (load_index w s c))))"
    and "md ''answers'' = Some (answers (snd (snd (load_index w s c))))"
    and "md ''sections'' = Some (sections (snd (snd (load_index w s c))))"
    by simp_all
qed

theorem load_index_succeeds_iff_readable_witness:
  "have_rag world_mismatch \<and> cache_readable world_mismatch ''vector_index''
   \<and> fst (load_index world_mismatch fresh_store ''vector_index'') = Inr ()
   \<and> questions (snd (snd (load_index world_mismatch fresh_store ''vector_index''))) =
        [''Can I bring a pet?'', ''What is checked bag fee?'']
   \<and> answers (snd (snd (load_index world_mismatch fresh_store ''vector_index''))) =
        [''Yes, in-cabin pets allowed for a fee.'']"
proof -
  have h: "have_rag world_mismatch"
    by (simp add: world_mismatch_def)
  have r: "cache_readable world_mismatch ''vector_index''"
    by (simp add: cache_readable_def artifact_paths world_mismatch_def)
  have f: "files world_mismatch (metadata_path ''vector_index'') =
             Some (Metadata [''questions'' \<mapsto> [''Can I bring a pet?'', ''What is checked bag fee?''],
                             ''answers'' \<mapsto> [''Yes, in-cabin pets allowed for a fee.''],
                             ''sections'' \<mapsto> [''Pets'']])"
    by (simp add: artifact_paths world_mismatch_def)
  from load_index_succeeds_iff_readable [OF h, of fresh_store "''vector_index''"] r f
  have "fst (load_index world_mismatch fresh_store ''vector_index'') = Inr ()"
    and "[''questions'' \<mapsto> [''Can I bring a pet?'', ''What is checked bag fee?''],
          ''answers'' \<mapsto> [''Yes, in-cabin pets allowed for a fee.''],
          ''sections'' \<mapsto> [''Pets'']] ''questions'' =
           Some (questions (snd (snd (load_index world_mismatch fresh_store ''vector_index''))))"
    and "[''questions'' \<mapsto> [''Can I bring a pet?'', ''What is checked bag fee?''],
          ''answers'' \<mapsto> [''Yes, in-cabin pets allowed for a fee.''],
          ''sections'' \<mapsto> [''Pets'']] ''answers'' =
           Some (answers (snd (snd (load_index world_mismatch fresh_store ''vector_index''))))"
    by blast+
  with h r show ?thesis
    by simp
qed

subsection \<open>Reading the corpus\<close>

lemma load_rows_eq:
  "load_rows ls rows = (if Malformed \<in> set ls then Inl JSONDecodeError else Inr (rows @ json_rows ls))"
proof (induction ls arbitrary: rows)
  case Nil
  show ?case by simp
next
  case (Cons l ls)
  then show ?case by (cases l) simp_all
qed

lemma has_both_eq:
  "\<not> type_error_row item \<Longrightarrow> has_both item = Inr (record_of item \<noteq> None)"
  by (cases item) (auto simp: has_both_def split: option.splits bool.splits)

lemma record_of_fields:
  assumes "record_of item = Some (q, a, sec)"
  shows "subscript item ''question'' = Inr q \<and> subscript item ''answer'' = Inr a
         \<and> get_default item ''section'' ''Unknown'' = Inr sec"
  using assms by (cases item) (auto simp: getitem_def split: option.splits)

lemma append_records_ok:
  assumes "\<forall>item\<in>set items. \<not> type_error_row item"
  shows "append_records items s =
           (Inr (),
            s\<lparr>questions := questions s @ map fst (List.map_filter record_of items),
              answers := answers s @ map (fst \<circ> snd) (List.map_filter record_of items),
              sections := sections s @ map (snd \<circ> snd) (List.map_filter record_of items)\<rparr>)"
  using assms
proof (induction items arbitrary: s)
  case Nil
  show ?case by simp
next
  case (Cons item items)
  then have hb: "has_both item = Inr (record_of item \<noteq> None)"
    by (simp add: has_both_eq)
  show ?case
  proof (cases "record_of item")
    case None
    with hb Cons show ?thesis
      by simp
  next
    case (Some r)
    obtain q a sec where r: "r = (q, a, sec)"
      by (cases r) auto
    with Some record_of_fields [of item q a sec] hb Cons show ?thesis
      by simp
  qed
qed

lemma type_error_row_raises:
  assumes "type_error_row item"
  shows "has_both item = Inl TypeError
         \<or> (has_both item = Inr True \<and> subscript item ''question'' = Inl TypeError)"
  using assms by (cases item) (auto simp: has_both_def split: bool.splits)

lemma append_records_type_error:
  assumes "\<exists>item\<in>set items. type_error_row item"
  shows "fst (append_records items s) = Inl TypeError"
  using assms
proof (induction items arbitrary: s)
  case Nil
  then show ?case by simp
next
  case (Cons item items)
  show ?case
  proof (cases "type_error_row item")
    case True
    from type_error_row_raises [OF this] show ?thesis
      by auto
  next
    case False
    with Cons.prems have rest: "\<exists>item\<in>set items. type_error_row item"
      by simp
    from False have hb: "has_both item = Inr (record_of item \<noteq> None)"
      by (rule has_both_eq)
    show ?thesis
    proof (cases "record_of item")
      case None
      with hb Cons.IH [OF rest] show ?thesis
        by simp
    next
      case (Some r)
      obtain q a sec where r: "r = (q, a, sec)"
        by (cases r) auto
      with Some record_of_fields [of item q a sec] hb Cons.IH [OF rest] show ?thesis
        by simp
    qed
  qed
qed

subsection \<open>The rebuild path\<close>

lemma path_join_inject: "path_join c a = path_join c b \<Longrightarrow> a = b"
  by (auto simp: path_join_def split: if_splits)

lemma artifact_paths_distinct:
  "embeddings_path c \<noteq> index_path c" "embeddings_path c \<noteq> metadata_path c"
  "index_path c \<noteq> metadata_path c" "index_path c \<noteq> embeddings_path c"
  "metadata_path c \<noteq> embeddings_path c" "metadata_path c \<noteq> index_path c"
  by (auto simp: embeddings_path_def index_path_def metadata_path_def dest: path_join_inject)

lemma encode_texts_length: "encode_texts f ts = Some vs \<Longrightarrow> length vs = length ts"
  by (induction ts arbitrary: vs) (auto split: option.splits)

lemma new_events_append: "new_events w (w\<lparr>trace := trace w @ evs\<rparr>) = evs"
  by (simp add: new_events_def)

lemma embed_and_save_ok:
  assumes "embed_and_save w s c = (Inr (), w', s')"
  shows "\<exists>f raw.
    (case model s of None \<Rightarrow> models w (model_name s) | Some m \<Rightarrow> Some m) = Some f
    \<and> encode_texts f (map passage (questions s)) = Some raw
    \<and> raw \<noteq> []
    \<and> s' = s\<lparr>model := Some f, embeddings := Some (normalize_rows (float32 w) raw),
            index := Some \<lparr>d = length (hd (normalize_rows (float32 w) raw)), xb = normalize_rows (float32 w) raw\<rparr>\<rparr>
    \<and> files w' = (files w)
        (embeddings_path c \<mapsto> Vectors (normalize_rows (float32 w) raw),
         index_path c \<mapsto> FaissIndex \<lparr>d = length (hd (normalize_rows (float32 w) raw)), xb = normalize_rows (float32 w) raw\<rparr>,
         metadata_path c \<mapsto> Metadata [''questions'' \<mapsto> questions s, ''answers'' \<mapsto> answers s,
                                        ''sections'' \<mapsto> sections s])
    \<and> trace w' = trace w @
       (case model s of None \<Rightarrow> [LoadModel (model_name s)] | Some m \<Rightarrow> [])
       @ [Encode (map passage (questions s)), WriteFile (embeddings_path c),
          WriteFile (index_path c), WriteFile (metadata_path c)]
    \<and> have_rag w' = have_rag w \<and> models w' = models w"
  using assms
  by (cases "model s")
    (auto simp: embed_and_save_def load_model_def model_encode_def Let_def shape1_def
      write_artifacts_def write_file_def logged_def IndexFlatL2_def add_def new_events_def
      normalize_rows_def
      split: option.splits sum.splits list.splits prod.splits)


lemma load_jsonl_ok:
  assumes "load_jsonl w p = (Inr rows, w1)"
  obtains ls where "files w p = Some (Corpus ls)" "Malformed \<notin> set ls" "rows = json_rows ls"
    "w1 = logged (ReadFile p) w"
  using assms
  by (auto simp: load_jsonl_def load_rows_eq split: option.splits content.splits if_splits)

lemma append_records_success:
  assumes "append_records items s = (Inr (), s1)"
  shows "(\<forall>item\<in>set items. \<not> type_error_row item)
         \<and> s1 = s\<lparr>questions := questions s @ map fst (List.map_filter record_of items),
              answers := answers s @ map (fst \<circ> snd) (List.map_filter record_of items),
              sections := sections s @ map (snd \<circ> snd) (List.map_filter record_of items)\<rparr>"
proof (cases "\<exists>item\<in>set items. type_error_row item")
  case True
  from append_records_type_error [OF this, of s] assms show ?thesis
    by simp
next
  case False
  then have "\<forall>item\<in>set items. \<not> type_error_row item"
    by simp
  from append_records_ok [OF this, of s] assms this show ?thesis
    by simp
qed

lemma rebuild_ok:
  assumes "rebuild w s pf c = (Inr (), w', s')"
  obtains ls f raw where
    "files w pf = Some (Corpus ls)" "Malformed \<notin> set ls"
    "\<forall>item\<in>set (json_rows ls). \<not> type_error_row item"
    "usable_records ls \<noteq> []"
    "questions s' = map fst (usable_records ls)"
    "answers s' = map (fst \<circ> snd) (usable_records ls)"
    "sections s' = map (snd \<circ> snd) (usable_records ls)"
    "(case model s of None \<Rightarrow> models w (model_name s) | Some m \<Rightarrow> Some m) = Some f"
    "model s' = Some f" "model_name s' = model_name s"
    "encode_texts f (map passage (questions s')) = Some raw"
    "embeddings s' = Some (normalize_rows (float32 w) raw)"
    "index s' = Some \<lparr>d = length (hd (normalize_rows (float32 w) raw)), xb = normalize_rows (float32 w) raw\<rparr>"
    "files w' = (files w)
        (embeddings_path c \<mapsto> Vectors (normalize_rows (float32 w) raw),
         index_path c \<mapsto> FaissIndex \<lparr>d = length (hd (normalize_rows (float32 w) raw)), xb = normalize_rows (float32 w) raw\<rparr>,
         metadata_path c \<mapsto> Metadata [''questions'' \<mapsto> questions s', ''answers'' \<mapsto> answers s',
                                        ''sections'' \<mapsto> sections s'])"
    "trace w' = trace w @
       ReadFile pf # (case model s of None \<Rightarrow> [LoadModel (model_name s)] | Some m \<Rightarrow> [])
       @ [Encode (map passage (questions s')), WriteFile (embeddings_path c),
          WriteFile (index_path c), WriteFile (metadata_path c)]"
    "have_rag w' = have_rag w" "models w' = models w"
proof -
  obtain r1 w1 where lj: "load_jsonl w pf = (r1, w1)"
    by (cases "load_jsonl w pf") auto
  with assms obtain rows where r1: "r1 = Inr rows"
    by (cases r1) (auto simp: rebuild_def)
  from load_jsonl_ok [OF lj [unfolded r1]] obtain ls where
    ls: "files w pf = Some (Corpus ls)" "Malformed \<notin> set ls" "rows = json_rows ls"
    "w1 = logged (ReadFile pf) w"
    by blast
  let ?s0 = "s\<lparr>questions := [], answers := [], sections := []\<rparr>"
  obtain r2 s1 where ar: "append_records rows ?s0 = (r2, s1)"
    by (cases "append_records rows ?s0") auto
  with assms lj r1 have r2: "r2 = Inr ()"
    by (cases r2) (auto simp: rebuild_def)
  from append_records_success [OF ar [unfolded r2]]
  have te: "\<forall>item\<in>set rows. \<not> type_error_row item"
    and s1: "s1 = s\<lparr>questions := map fst (List.map_filter record_of rows),
              answers := map (fst \<circ> snd) (List.map_filter record_of rows),
              sections := map (snd \<circ> snd) (List.map_filter record_of rows)\<rparr>"
    by simp_all
  from assms lj r1 ar r2 have ne: "questions s1 \<noteq> []"
    and es: "embed_and_save w1 s1 c = (Inr (), w', s')"
    by (auto simp: rebuild_def split: if_splits)
  from embed_and_save_ok [OF es] obtain f raw where
    e: "(case model s1 of None \<Rightarrow> models w1 (model_name s1) | Some m \<Rightarrow> Some m) = Some f"
      "encode_texts f (map passage (questions s1)) = Some raw"
      "s' = s1\<lparr>model := Some f, embeddings := Some (normalize_rows (float32 w1) raw),
            index := Some \<lparr>d = length (hd (normalize_rows (float32 w1) raw)), xb = normalize_rows (float32 w1) raw\<rparr>\<rparr>"
      "files w' = (files w1)
        (embeddings_path c \<mapsto> Vectors (normalize_rows (float32 w1) raw),
         index_path c \<mapsto> FaissIndex \<lparr>d = length (hd (normalize_rows (float32 w1) raw)), xb = normalize_rows (float32 w1) raw\<rparr>,
         metadata_path c \<mapsto> Metadata [''questions'' \<mapsto> questions s1, ''answers'' \<mapsto> answers s1,
                                        ''sections'' \<mapsto> sections s1])"
      "trace w' = trace w1 @
       (case model s1 of None \<Rightarrow> [LoadModel (model_name s1)] | Some m \<Rightarrow> [])
       @ [Encode (map passage (questions s1)), WriteFile (embeddings_path c),
          WriteFile (index_path c), WriteFile (metadata_path c)]"
      "have_rag w' = have_rag w1" "models w' = models w1"
    by blast
  show thesis
    by (rule that [of ls f raw]) (use ls te s1 ne e in \<open>auto simp add: usable_records_def logged_def split: option.splits\<close>)
qed

lemma new_events_eq: "trace w' = trace w @ evs \<Longrightarrow> new_events w w' = evs"
  by (simp add: new_events_def)

lemma length_normalize_row: "length (normalize_row fo v) = length v"
  by (simp add: normalize_row_def)

lemma float32_logged: "float32 (logged ev w) = float32 w"
  by (simp add: logged_def)

lemma normalize_pet: "normalize_row pet_float32 [1, 0] = [1, 0]"
  by (simp add: normalize_row_def pet_float32_def)

lemma build_index_world_corpus:
  "build_index world_corpus fresh_store ''policies.jsonl'' ''vector_index'' =
     (Inr (), world_built, store_built)"
  by (simp add: build_index_def ensure_rag_available_def path_exists_def makedirs_def
      cache_complete_def artifact_paths world_corpus_def rebuild_def load_jsonl_def logged_def
      fresh_store_def pet_record_def has_both_def getitem_def embed_and_save_def load_model_def
      model_encode_def pet_model_def passage_def normalize_rows_def normalize_pet shape1_def
      length_normalize_row IndexFlatL2_def add_def write_artifacts_def write_file_def
      world_built_def store_built_def pet_built_index_def pet_metadata_def Let_def numeral_2_eq_2)


subsection \<open>build\_index and the cache\<close>

lemma read_artifacts_effects:
  "files (fst (snd (read_artifacts w s c))) = files w
   \<and> (\<exists>evs. trace (fst (snd (read_artifacts w s c))) = trace w @ evs
             \<and> list_all (cache_read c) evs)"
  by (auto simp: read_artifacts_def read_metadata_def Let_def logged_def cache_read_def
      split: sum.splits)

lemma build_index_dispatch:
  assumes "have_rag w" and "path_exists w pf" and "makedirs w c = Inr ()"
  shows "build_index w s pf c =
           (if cache_complete w c then read_artifacts w s c else rebuild w s pf c)"
  using assms by (simp add: build_index_def ensure_rag_available_def)

lemma build_index_complete:
  assumes "cache_complete w c"
  shows "build_index w s pf c = read_artifacts w s c
         \<or> (\<exists>e. build_index w s pf c = (Inl e, w, s))"
  using assms by (auto simp: build_index_def split: sum.splits)

lemma build_index_incomplete:
  assumes "\<not> cache_complete w c" and "build_index w s pf c = (Inr (), w', s')"
  shows "rebuild w s pf c = (Inr (), w', s') \<and> have_rag w"
  using assms
  by (auto simp: build_index_def ensure_rag_available_def split: sum.splits if_splits)

subsection \<open>The lines of the corpus\<close>

lemma embed_and_save_no_value_error: "fst (embed_and_save w s c) \<noteq> Inl (ValueError msg)"
  by (cases "model s")
    (auto simp: embed_and_save_def load_model_def model_encode_def Let_def shape1_def
      split: option.splits sum.splits list.splits prod.splits)

lemma rebuild_malformed:
  assumes "files w pf = Some (Corpus ls)" and "Malformed \<in> set ls"
  shows "fst (rebuild w s pf c) = Inl JSONDecodeError"
  using assms by (simp add: rebuild_def load_jsonl_def load_rows_eq)

lemma rebuild_type_error:
  assumes "files w pf = Some (Corpus ls)" and "Malformed \<notin> set ls"
    and "\<exists>item\<in>set (json_rows ls). type_error_row item"
  shows "fst (rebuild w s pf c) = Inl TypeError"
proof -
  let ?s0 = "s\<lparr>questions := [], answers := [], sections := []\<rparr>"
  from append_records_type_error [OF assms(3), of ?s0]
  obtain s1 where "append_records (json_rows ls) ?s0 = (Inl TypeError, s1)"
    by (cases "append_records (json_rows ls) ?s0") auto
  with assms(1,2) show ?thesis
    by (simp add: rebuild_def load_jsonl_def load_rows_eq)
qed

lemma rebuild_rows_ok:
  assumes "files w pf = Some (Corpus ls)" and "Malformed \<notin> set ls"
    and "\<forall>item\<in>set (json_rows ls). \<not> type_error_row item"
  shows "rebuild w s pf c =
           (if usable_records ls = []
            then (Inl (ValueError ''No Q&A pairs found in policies file''),
                  logged (ReadFile pf) w,
                  s\<lparr>questions := [], answers := [], sections := []\<rparr>)
            else embed_and_save (logged (ReadFile pf) w)
                   (s\<lparr>questions := map fst (usable_records ls),
                      answers := map (fst \<circ> snd) (usable_records ls),
                      sections := map (snd \<circ> snd) (usable_records ls)\<rparr>) c)"
  using assms append_records_ok [OF assms(3), of "s\<lparr>questions := [], answers := [], sections := []\<rparr>"]
  by (simp add: rebuild_def load_jsonl_def load_rows_eq usable_records_def)

text \<open>
  C5 as stated has \<^verbatim>\<open>build_index\<close> skip a malformed line. It does not: on a corpus
  whose first line is not JSON and whose second line is a complete record it raises
  \<^verbatim>\<open>JSONDecodeError\<close>, indexes nothing and writes no artifact.
\<close>

theorem build_index_malformed_line_counterexample:
  "usable_records [Malformed, Json pet_record] \<noteq> []
   \<and> fst (build_index world_malformed fresh_store ''policies.jsonl'' ''vector_index'') =
        Inl JSONDecodeError
   \<and> index (snd (snd (build_index world_malformed fresh_store ''policies.jsonl'' ''vector_index'')))
        = None
   \<and> \<not> cache_complete
        (fst (snd (build_index world_malformed fresh_store ''policies.jsonl'' ''vector_index'')))
        ''vector_index''"
  by (simp add: usable_records_def pet_record_def build_index_def ensure_rag_available_def
      path_exists_def makedirs_def cache_complete_def artifact_paths world_malformed_def
      rebuild_def load_jsonl_def logged_def fresh_store_def)


subsection \<open>The parallel arrays\<close>

lemma zip_projections:
  "zip (map fst rs) (zip (map (fst \<circ> snd) rs) (map (snd \<circ> snd) rs)) = rs"
  by (induction rs) auto

lemma encode_texts_nth:
  "encode_texts f ts = Some vs \<Longrightarrow> i < length ts \<Longrightarrow> f (ts ! i) = Some (vs ! i)"
proof (induction ts arbitrary: vs i)
  case Nil
  then show ?case by simp
next
  case (Cons t ts)
  then show ?case
    by (cases i) (auto split: option.splits)
qed

text \<open>
  C6 as stated covers every successful \<^verbatim>\<open>build_index\<close>. On the cache branch the
  arrays are taken as stored: with a cache of two questions, one answer, one section and one
  vector, \<^verbatim>\<open>build_index\<close> returns normally and the four quantities are 2, 1, 1
  and 1.
\<close>

theorem build_index_cached_lengths_counterexample:
  "fst (build_index world_corpus_mismatch fresh_store ''policies.jsonl'' ''vector_index'') = Inr ()
   \<and> length (questions (snd (snd (build_index world_corpus_mismatch fresh_store
         ''policies.jsonl'' ''vector_index'')))) = 2
   \<and> length (answers (snd (snd (build_index world_corpus_mismatch fresh_store
         ''policies.jsonl'' ''vector_index'')))) = 1
   \<and> length (sections (snd (snd (build_index world_corpus_mismatch fresh_store
         ''policies.jsonl'' ''vector_index'')))) = 1
   \<and> map_option ntotal (index (snd (snd (build_index world_corpus_mismatch fresh_store
         ''policies.jsonl'' ''vector_index'')))) = Some 1"
  by (simp add: build_index_def ensure_rag_available_def path_exists_def makedirs_def
      cache_complete_def artifact_paths world_corpus_mismatch_def read_artifacts_def
      np_load_def read_index_def read_metadata_def json_load_def getitem_def logged_def
      fresh_store_def pet_index_def ntotal_def Let_def)

text \<open>
  C6, amended. After every \<^verbatim>\<open>build_index\<close> that returns normally on the rebuild
  branch (at least one artifact was missing), \<open>questions\<close>, \<open>answers\<close>,
  \<open>sections\<close>, the embedding matrix and the index all have the same length; entry
  \<open>i\<close> of the three arrays is the \<open>i\<close>-th usable record of the corpus, and vector
  \<open>i\<close> of the index is the normalised embedding of the passage of question \<open>i\<close>.
  (On the cache branch the fields are the cached ones, which are not compared.)
\<close>

theorem build_index_parallel_arrays:
  assumes "build_index w s pf c = (Inr (), w', s')" and "\<not> cache_complete w c"
  shows "length (answers s') = length (questions s')
       \<and> length (sections s') = length (questions s')
       \<and> map_option length (embeddings s') = Some (length (questions s'))
       \<and> map_option ntotal (index s') = Some (length (questions s'))
       \<and> map_option xb (index s') = embeddings s'
       \<and> (\<forall>ls. files w pf = Some (Corpus ls) \<longrightarrow>
             zip (questions s') (zip (answers s') (sections s')) = usable_records ls)
       \<and> (\<forall>f m i. model s' = Some f \<and> embeddings s' = Some m \<and> i < length (questions s') \<longrightarrow>
             map_option (normalize_row (float32 w)) (f (passage (questions s' ! i))) = Some (m ! i))"
proof -
  from build_index_incomplete [OF assms(2,1)]
  have rb: "rebuild w s pf c = (Inr (), w', s')"
    by simp
  obtain ls f raw where
    r: "files w pf = Some (Corpus ls)"
    "questions s' = map fst (usable_records ls)"
    "answers s' = map (fst \<circ> snd) (usable_records ls)"
    "sections s' = map (snd \<circ> snd) (usable_records ls)"
    "model s' = Some f"
    "encode_texts f (map passage (questions s')) = Some raw"
    "embeddings s' = Some (normalize_rows (float32 w) raw)"
    "index s' = Some \<lparr>d = length (hd (normalize_rows (float32 w) raw)), xb = normalize_rows (float32 w) raw\<rparr>"
    by (rule rebuild_ok [OF rb]) (rule that; assumption)
  from encode_texts_length [OF r(6)] have len: "length raw = length (questions s')"
    by simp
  have nth: "map_option (normalize_row (float32 w)) (f (passage (questions s' ! i))) = Some (normalize_rows (float32 w) raw ! i)"
    if "i < length (questions s')" for i
    using encode_texts_nth [OF r(6), of i] that len
    by (simp add: normalize_rows_def)
  have 1: "length (answers s') = length (questions s')"
    and 2: "length (sections s') = length (questions s')"
    using r(2-4) by simp_all
  have 3: "map_option length (embeddings s') = Some (length (questions s'))"
    using r(7) len by (simp add: normalize_rows_def)
  have 4: "map_option ntotal (index s') = Some (length (questions s'))"
    using r(8) len by (simp add: ntotal_def normalize_rows_def)
  have 5: "map_option xb (index s') = embeddings s'"
    using r(7,8) by simp
  have 6: "\<forall>ls. files w pf = Some (Corpus ls) \<longrightarrow>
             zip (questions s') (zip (answers s') (sections s')) = usable_records ls"
    using r(1-4) by (simp add: zip_projections)
  have 7: "\<forall>f m i. model s' = Some f \<and> embeddings s' = Some m \<and> i < length (questions s') \<longrightarrow>
             map_option (normalize_row (float32 w)) (f (passage (questions s' ! i))) = Some (m ! i)"
    using r(5,7) nth by simp
  from 1 2 3 4 5 6 7 show ?thesis
    by (intro conjI)
qed

theorem build_index_parallel_arrays_witness:
  "build_index world_corpus fresh_store ''policies.jsonl'' ''vector_index'' =
     (Inr (), world_built, store_built)
   \<and> \<not> cache_complete world_corpus ''vector_index''
   \<and> length (answers store_built) = length (questions store_built)
   \<and> length (sections store_built) = length (questions store_built)
   \<and> map_option length (embeddings store_built) = Some (length (questions store_built))
   \<and> map_option ntotal (index store_built) = Some (length (questions store_built))
   \<and> zip (questions store_built) (zip (answers store_built) (sections store_built)) =
       [(''Can I bring a pet?'', ''Yes, in-cabin pets allowed for a fee.'', ''Pets'')]"
proof -
  have nc: "\<not> cache_complete world_corpus ''vector_index''"
    by (simp add: world_corpus_def path_exists_def cache_complete_def artifact_paths)
  have f: "files world_corpus ''policies.jsonl'' = Some (Corpus [Json pet_record])"
    by (simp add: world_corpus_def)
  have u: "usable_records [Json pet_record] =
       [(''Can I bring a pet?'', ''Yes, in-cabin pets allowed for a fee.'', ''Pets'')]"
    by (simp add: usable_records_def pet_record_def)
  note th = build_index_parallel_arrays [OF build_index_world_corpus nc]
  from th have a: "length (answers store_built) = length (questions store_built)"
    and b: "length (sections store_built) = length (questions store_built)"
    and c: "map_option length (embeddings store_built) = Some (length (questions store_built))"
    and d: "map_option ntotal (index store_built) = Some (length (questions store_built))"
    by blast+
  from th have "\<forall>ls. files world_corpus ''policies.jsonl'' = Some (Corpus ls) \<longrightarrow>
      zip (questions store_built) (zip (answers store_built) (sections store_built)) =
        usable_records ls"
    by blast
  with f have "zip (questions store_built) (zip (answers store_built) (sections store_built)) =
        usable_records [Json pet_record]"
    by blast
  with u a b c d
  have "length (answers store_built) = length (questions store_built)
   \<and> length (sections store_built) = length (questions store_built)
   \<and> map_option length (embeddings store_built) = Some (length (questions store_built))
   \<and> map_option ntotal (index store_built) = Some (length (questions store_built))
   \<and> zip (questions store_built) (zip (answers store_built) (sections store_built)) =
       [(''Can I bring a pet?'', ''Yes, in-cabin pets allowed for a fee.'', ''Pets'')]"
    by (simp only:) 
  with build_index_world_corpus nc show ?thesis
    by blast
qed

lemma build_index_cached_fields:
  assumes "build_index w s pf c = (Inr (), w', s')" and "cache_complete w c"
  shows "map_option Vectors (embeddings s') = files w (embeddings_path c)
       \<and> map_option FaissIndex (index s') = files w (index_path c)
       \<and> (\<exists>md. files w (metadata_path c) = Some (Metadata md)
                \<and> md ''questions'' = Some (questions s') \<and> md ''answers'' = Some (answers s')
                \<and> md ''sections'' = Some (sections s'))"
proof -
  from build_index_complete [OF assms(2), of s pf] assms(1)
  have ra: "read_artifacts w s c = (Inr (), w', s')"
    by auto
  then have "cache_readable w c"
    using read_artifacts_success_iff [of w s c] by simp
  then obtain m ix md qs as ss where f: "files w (embeddings_path c) = Some (Vectors m)"
    "files w (index_path c) = Some (FaissIndex ix)"
    "files w (metadata_path c) = Some (Metadata md)"
    "md ''questions'' = Some qs" "md ''answers'' = Some as" "md ''sections'' = Some ss"
    by (blast elim: readable_metadata)
  from read_artifacts_ok [OF f, of s] ra f show ?thesis
    by auto
qed


subsection \<open>Normalisation\<close>

text \<open>
  The norm of a normalised row is decided by the rounding of float32 and is not stated
  here. What the definitions fix is that the stored rows and the query vector go through
  the same function \<open>normalize_row\<close> of the same machine: the rows of the index are the
  normalised encodings of the passages, and the search runs on the normalised encoding of
  the query.
\<close>

lemma zip_fst_snd: "zip (map fst ps) (map snd ps) = ps"
  by (induction ps) auto

lemma retrieve_unfold:
  assumes "index s = Some ix" and "model s = Some f" and "f (query_with_prefix q) = Some v"
  shows "retrieve w s q k =
           (if k \<le> 0 \<or> length v \<noteq> d ix then Inl SearchError
            else format_results s 0 (search_row ix (normalize_row (float32 w) v) (nat k)) [],
            logged (Encode [query_with_prefix q]) w, s)"
  using assms
  by (simp add: retrieve_def load_model_def model_encode_def search_def normalize_rows_def
      list_get_def zip_fst_snd length_normalize_row float32_logged)

lemma stored_rows_normalized:
  assumes "build_index w s pf c = (Inr (), w', s')" and "\<not> cache_complete w c"
    and "model s' = Some f" and "embeddings s' = Some m" and "i < length (questions s')"
  shows "map_option (normalize_row (float32 w)) (f (passage (questions s' ! i))) = Some (m ! i)
         \<and> map_option xb (index s') = Some m"
proof -
  from build_index_incomplete [OF assms(2,1)]
  have rb: "rebuild w s pf c = (Inr (), w', s')"
    by simp
  obtain ls f' raw where
    r: "model s' = Some f'"
    "encode_texts f' (map passage (questions s')) = Some raw"
    "embeddings s' = Some (normalize_rows (float32 w) raw)"
    "index s' = Some \<lparr>d = length (hd (normalize_rows (float32 w) raw)),
                       xb = normalize_rows (float32 w) raw\<rparr>"
    by (rule rebuild_ok [OF rb]) (rule that; assumption)
  from r(1) assms(3) have ff: "f' = f"
    by simp
  from encode_texts_length [OF r(2)] have len: "length raw = length (questions s')"
    by simp
  from encode_texts_nth [OF r(2), of i] assms(5) ff
  have "f (passage (questions s' ! i)) = Some (raw ! i)"
    by simp
  with r(3,4) assms(4,5) len show ?thesis
    by (auto simp: normalize_rows_def)
qed

subsection \<open>retrieve\<close>

lemma format_results_fields:
  assumes "questions s1 = questions s2" and "answers s1 = answers s2"
    and "sections s1 = sections s2"
  shows "format_results s1 pos rows acc = format_results s2 pos rows acc"
proof (induction rows arbitrary: pos acc)
  case Nil
  show ?case by simp
next
  case (Cons row rows)
  obtain idx dst where "row = (idx, dst)"
    by (cases row) auto
  with Cons assms show ?case
    by (simp split: sum.splits)
qed

lemma retrieve_result:
  assumes "index s = Some ix"
    and "(case model s of None \<Rightarrow> models w (model_name s) | Some m \<Rightarrow> Some m) = Some f"
  shows "fst (retrieve w s q k) =
           (case f (query_with_prefix q) of
              None \<Rightarrow> Inl EncodeError
            | Some v \<Rightarrow>
                if k \<le> 0 \<or> length v \<noteq> d ix then Inl SearchError
                else format_results s 0 (search_row ix (normalize_row (float32 w) v) (nat k)) [])"
  using assms
  by (cases "model s"; cases "f (query_with_prefix q)")
    (simp_all add: retrieve_def load_model_def model_encode_def search_def normalize_rows_def
      list_get_def zip_fst_snd length_normalize_row logged_def
      format_results_fields [of "s\<lparr>model := Some f\<rparr>" s])

text \<open>
  C1 on the single-record index with \<open>top_k = 5\<close>. The index fills all five slots, four
  of them with label \<open>-1\<close> and distance \<open>FLT_MAX\<close>; the guard
  \<^verbatim>\<open>idx < len(self.questions)\<close> lets \<open>-1\<close> through and \<^verbatim>\<open>self.questions[-1]\<close>
  is the last record, so \<^verbatim>\<open>retrieve\<close> returns five results, ranks 1 to 5, where the
  claim has exactly one.
\<close>

theorem retrieve_single_record_top5:
  "build_index world_corpus fresh_store ''policies.jsonl'' ''vector_index'' =
     (Inr (), world_built, store_built)
   \<and> length (questions store_built) = 1
   \<and> fst (retrieve world_built store_built ''pet policy'' 5) =
       Inr [\<lparr>question = ''Can I bring a pet?'', answer = ''Yes, in-cabin pets allowed for a fee.'',
              section_name = ''Pets'', distance = 0, rank = 1\<rparr>,
            \<lparr>question = ''Can I bring a pet?'', answer = ''Yes, in-cabin pets allowed for a fee.'',
              section_name = ''Pets'', distance = FLT_MAX, rank = 2\<rparr>,
            \<lparr>question = ''Can I bring a pet?'', answer = ''Yes, in-cabin pets allowed for a fee.'',
              section_name = ''Pets'', distance = FLT_MAX, rank = 3\<rparr>,
            \<lparr>question = ''Can I bring a pet?'', answer = ''Yes, in-cabin pets allowed for a fee.'',
              section_name = ''Pets'', distance = FLT_MAX, rank = 4\<rparr>,
            \<lparr>question = ''Can I bring a pet?'', answer = ''Yes, in-cabin pets allowed for a fee.'',
              section_name = ''Pets'', distance = FLT_MAX, rank = 5\<rparr>]"
proof -
  have r: "index store_built = Some pet_built_index" "model store_built = Some pet_model"
    "pet_model (query_with_prefix ''pet policy'') = Some [1, 0]"
    by (simp_all add: store_built_def pet_model_def)
  have sr: "search_row pet_built_index [1, 0] 5 =
      [(0, 0), (- 1, FLT_MAX), (- 1, FLT_MAX), (- 1, FLT_MAX), (- 1, FLT_MAX)]"
    by (simp add: search_row_def pet_built_index_def ntotal_def l2_sqr_def
        numeral_eq_Suc)
  have fr: "format_results store_built 0
      [(0, 0), (- 1, FLT_MAX), (- 1, FLT_MAX), (- 1, FLT_MAX), (- 1, FLT_MAX)] [] =
       Inr [\<lparr>question = ''Can I bring a pet?'', answer = ''Yes, in-cabin pets allowed for a fee.'',
              section_name = ''Pets'', distance = 0, rank = 1\<rparr>,
            \<lparr>question = ''Can I bring a pet?'', answer = ''Yes, in-cabin pets allowed for a fee.'',
              section_name = ''Pets'', distance = FLT_MAX, rank = 2\<rparr>,
            \<lparr>question = ''Can I bring a pet?'', answer = ''Yes, in-cabin pets allowed for a fee.'',
              section_name = ''Pets'', distance = FLT_MAX, rank = 3\<rparr>,
            \<lparr>question = ''Can I bring a pet?'', answer = ''Yes, in-cabin pets allowed for a fee.'',
              section_name = ''Pets'', distance = FLT_MAX, rank = 4\<rparr>,
            \<lparr>question = ''Can I bring a pet?'', answer = ''Yes, in-cabin pets allowed for a fee.'',
              section_name = ''Pets'', distance = FLT_MAX, rank = 5\<rparr>]"
    by (simp add: store_built_def list_get_def)
  have "fst (retrieve world_built store_built ''pet policy'' 5) =
      format_results store_built 0 (search_row pet_built_index [1, 0] (nat 5)) []"
    using r by (simp add: retrieve_unfold pet_built_index_def world_built_def normalize_pet)
  with sr fr build_index_world_corpus show ?thesis
    by (simp add: store_built_def)
qed

subsection \<open>Saving and loading\<close>

lemma build_index_saved:
  assumes "build_index w s pf c = (Inr (), w', s')" and "\<not> cache_complete w c"
  obtains f m ix where
    "have_rag w'" "models w' = models w" "model_name s' = model_name s"
    "(case model s of None \<Rightarrow> models w (model_name s) | Some m \<Rightarrow> Some m) = Some f"
    "model s' = Some f" "embeddings s' = Some m" "index s' = Some ix"
    "files w' (embeddings_path c) = Some (Vectors m)"
    "files w' (index_path c) = Some (FaissIndex ix)"
    "files w' (metadata_path c) =
       Some (Metadata [''questions'' \<mapsto> questions s', ''answers'' \<mapsto> answers s',
                       ''sections'' \<mapsto> sections s'])"
proof -
  from build_index_incomplete [OF assms(2,1)]
  have rb: "rebuild w s pf c = (Inr (), w', s')" and hr: "have_rag w"
    by simp_all
  obtain f raw where
    r: "(case model s of None \<Rightarrow> models w (model_name s) | Some m \<Rightarrow> Some m) = Some f"
    "model s' = Some f" "model_name s' = model_name s"
    "embeddings s' = Some (normalize_rows (float32 w) raw)"
    "index s' = Some \<lparr>d = length (hd (normalize_rows (float32 w) raw)), xb = normalize_rows (float32 w) raw\<rparr>"
    "files w' = (files w)
        (embeddings_path c \<mapsto> Vectors (normalize_rows (float32 w) raw),
         index_path c \<mapsto> FaissIndex \<lparr>d = length (hd (normalize_rows (float32 w) raw)), xb = normalize_rows (float32 w) raw\<rparr>,
         metadata_path c \<mapsto> Metadata [''questions'' \<mapsto> questions s', ''answers'' \<mapsto> answers s',
                                        ''sections'' \<mapsto> sections s'])"
    "have_rag w' = have_rag w" "models w' = models w"
    by (rule rebuild_ok [OF rb]) (rule that; assumption)
  show thesis
  proof (rule that [of f "normalize_rows (float32 w) raw"
        "\<lparr>d = length (hd (normalize_rows (float32 w) raw)), xb = normalize_rows (float32 w) raw\<rparr>"])
    show "files w' (embeddings_path c) = Some (Vectors (normalize_rows (float32 w) raw))"
      using r(6) by (simp add: artifact_paths_distinct)
    show "files w' (index_path c) =
        Some (FaissIndex \<lparr>d = length (hd (normalize_rows (float32 w) raw)), xb = normalize_rows (float32 w) raw\<rparr>)"
      using r(6) by (simp add: artifact_paths_distinct)
    show "files w' (metadata_path c) =
       Some (Metadata [''questions'' \<mapsto> questions s', ''answers'' \<mapsto> answers s',
                       ''sections'' \<mapsto> sections s'])"
      using r(6) by simp
  qed (use r hr in simp_all)
qed

text \<open>
  C8. After a \<^verbatim>\<open>build_index\<close> that built and saved (an artifact was missing, the call
  returned normally), \<^verbatim>\<open>load_index\<close> on the same directory, into any store, returns
  normally with the same embedding matrix, index, questions, answers and sections; and a
  store of the same model name with no model loaded yet gives, once loaded, the same
  \<^verbatim>\<open>retrieve\<close> result as the built store for every query and \<open>top_k\<close>.
  (An artifact holds the value written to it: serialisation and float32 rounding are
  outside the model.)
\<close>

theorem save_load_roundtrip:
  assumes "build_index w s pf c = (Inr (), w', s')" and "\<not> cache_complete w c"
  shows "fst (load_index w' s0 c) = Inr ()
       \<and> embeddings (snd (snd (load_index w' s0 c))) = embeddings s'
       \<and> index (snd (snd (load_index w' s0 c))) = index s'
       \<and> questions (snd (snd (load_index w' s0 c))) = questions s'
       \<and> answers (snd (snd (load_index w' s0 c))) = answers s'
       \<and> sections (snd (snd (load_index w' s0 c))) = sections s'
       \<and> (model_consistent w s \<and> model_name s0 = model_name s \<and> model s0 = None \<longrightarrow>
            fst (retrieve (fst (snd (load_index w' s0 c))) (snd (snd (load_index w' s0 c))) q k)
              = fst (retrieve w' s' q k))"
proof -
  obtain f m ix where
    b: "have_rag w'" "models w' = models w" "model_name s' = model_name s"
    "(case model s of None \<Rightarrow> models w (model_name s) | Some m \<Rightarrow> Some m) = Some f"
    "model s' = Some f" "embeddings s' = Some m" "index s' = Some ix"
    "files w' (embeddings_path c) = Some (Vectors m)"
    "files w' (index_path c) = Some (FaissIndex ix)"
    "files w' (metadata_path c) =
       Some (Metadata [''questions'' \<mapsto> questions s', ''answers'' \<mapsto> answers s',
                       ''sections'' \<mapsto> sections s'])"
    by (rule build_index_saved [OF assms]) (rule that; assumption)
  let ?md = "[''questions'' \<mapsto> questions s', ''answers'' \<mapsto> answers s',
              ''sections'' \<mapsto> sections s']"
  let ?w'' = "logged (ReadFile (metadata_path c))
              (logged (ReadFile (index_path c)) (logged (ReadFile (embeddings_path c)) w'))"
  let ?s'' = "s0\<lparr>embeddings := Some m, index := Some ix, questions := questions s',
               answers := answers s', sections := sections s'\<rparr>"
  have cc: "cache_complete w' c"
    using b(8-10) by (simp add: cache_complete_def path_exists_def)
  have md: "?md ''questions'' = Some (questions s')" "?md ''answers'' = Some (answers s')"
    "?md ''sections'' = Some (sections s')"
    by simp_all
  have li: "load_index w' s0 c = (Inr (), ?w'', ?s'')"
    using load_index_present [OF b(1) cc, of s0]
      read_artifacts_ok [OF b(8) b(9) b(10) md, of s0]
    by simp
  have rt: "fst (retrieve ?w'' ?s'' q k) = fst (retrieve w' s' q k)"
    if h: "model_consistent w s \<and> model_name s0 = model_name s \<and> model s0 = None"
  proof -
    from h b(4) have mf: "models w (model_name s) = Some f"
      by (auto simp: model_consistent_def split: option.splits)
    have 1: "index ?s'' = Some ix"
      by simp
    have 2: "(case model ?s'' of None \<Rightarrow> models ?w'' (model_name ?s'') | Some m \<Rightarrow> Some m) = Some f"
      using h mf b(2) by (simp add: logged_def)
    have 3: "(case model s' of None \<Rightarrow> models w' (model_name s') | Some m \<Rightarrow> Some m) = Some f"
      using b(5) by simp
    have 4: "format_results ?s'' pos rows acc = format_results s' pos rows acc" for pos rows acc
      by (rule format_results_fields) simp_all
    show ?thesis
      by (simp only: retrieve_result [OF 1 2] retrieve_result [OF b(7) 3] 4 float32_logged)
  qed
  from li b(6,7) rt show ?thesis
    by simp
qed

theorem save_load_roundtrip_witness:
  "build_index world_corpus fresh_store ''policies.jsonl'' ''vector_index'' =
     (Inr (), world_built, store_built)
   \<and> \<not> cache_complete world_corpus ''vector_index''
   \<and> fst (load_index world_built fresh_store ''vector_index'') = Inr ()
   \<and> embeddings (snd (snd (load_index world_built fresh_store ''vector_index''))) =
       Some [[1, 0]]
   \<and> questions (snd (snd (load_index world_built fresh_store ''vector_index''))) =
       [''Can I bring a pet?'']
   \<and> model_consistent world_corpus fresh_store
   \<and> fst (retrieve (fst (snd (load_index world_built fresh_store ''vector_index'')))
             (snd (snd (load_index world_built fresh_store ''vector_index''))) ''pet policy'' 1)
       = fst (retrieve world_built store_built ''pet policy'' 1)"
proof -
  have nc: "\<not> cache_complete world_corpus ''vector_index''"
    by (simp add: world_corpus_def path_exists_def cache_complete_def artifact_paths)
  have mc: "model_consistent world_corpus fresh_store \<and> model_name fresh_store = model_name fresh_store
            \<and> model fresh_store = None"
    by (simp add: model_consistent_def fresh_store_def)
  note th = save_load_roundtrip [OF build_index_world_corpus nc, of fresh_store "''pet policy''" 1]
  from th have 1: "fst (load_index world_built fresh_store ''vector_index'') = Inr ()"
    and 2: "embeddings (snd (snd (load_index world_built fresh_store ''vector_index''))) =
       embeddings store_built"
    and 3: "questions (snd (snd (load_index world_built fresh_store ''vector_index''))) =
       questions store_built"
    by blast+
  from th mc have 4: "fst (retrieve (fst (snd (load_index world_built fresh_store ''vector_index'')))
             (snd (snd (load_index world_built fresh_store ''vector_index''))) ''pet policy'' 1)
       = fst (retrieve world_built store_built ''pet policy'' 1)"
    by blast
  from 2 3 have 5: "embeddings (snd (snd (load_index world_built fresh_store ''vector_index''))) =
       Some [[1, 0]]"
    and 6: "questions (snd (snd (load_index world_built fresh_store ''vector_index''))) =
       [''Can I bring a pet?'']"
    by (simp_all add: store_built_def)
  from build_index_world_corpus nc 1 5 6 mc 4 show ?thesis
    by (intro conjI) blast+
qed

subsection \<open>The number of results in general\<close>

text \<open>
  What holds for every \<open>top_k\<close>: on a store whose three arrays have one length, at
  least one entry and at least as many entries as the index has vectors, \<^verbatim>\<open>retrieve\<close>
  returns exactly \<open>top_k\<close> results with ranks 1, 2, ... in list order. That is
  \<open>min(top_k, N)\<close> only while \<open>top_k\<close> does not exceed the number of records.
\<close>

lemma init_store:
  assumes "init w name = Inr s"
  shows "have_rag w \<and> model_consistent w s \<and> index s = None \<and> model_name s = name"
  using assms
  by (auto simp: init_def ensure_rag_available_def model_consistent_def split: if_splits)

lemma search_row_length: "length (search_row ix q k) = k"
  by (simp add: search_row_def Let_def)

lemma search_row_labels:
  assumes "(idx, dst) \<in> set (search_row ix q k)"
  shows "idx = - 1 \<or> (0 \<le> idx \<and> idx < int (ntotal ix))"
proof -
  let ?ranked = "sort_key snd (zip (map int [0..<ntotal ix]) (map (l2_sqr q) (xb ix)))"
  from assms have "(idx, dst) \<in> set (take k ?ranked) \<or> idx = - 1"
    by (auto simp: search_row_def Let_def)
  then show ?thesis
  proof
    assume "(idx, dst) \<in> set (take k ?ranked)"
    then have "(idx, dst) \<in> set (zip (map int [0..<ntotal ix]) (map (l2_sqr q) (xb ix)))"
      by (auto dest: in_set_takeD)
    then have "idx \<in> set (map int [0..<ntotal ix])"
      by (rule set_zip_leftD)
    then show ?thesis
      by auto
  next
    assume "idx = - 1"
    then show ?thesis by simp
  qed
qed

lemma list_get_in_range:
  assumes "- int (length xs) \<le> i" and "i < int (length xs)"
  shows "\<exists>x. list_get xs i = Inr x"
  using assms by (auto simp: list_get_def)

lemma format_results_all_slots:
  assumes "length (answers s) = length (questions s)"
    and "length (sections s) = length (questions s)"
    and "\<forall>(idx, dst)\<in>set rows. - int (length (questions s)) \<le> idx \<and> idx < int (length (questions s))"
  shows "\<exists>rs. format_results s pos rows acc = Inr (acc @ rs) \<and> length rs = length rows
              \<and> map rank rs = [Suc pos..<Suc pos + length rows]
              \<and> map distance rs = map snd rows"
  using assms(3)
proof (induction rows arbitrary: pos acc)
  case Nil
  show ?case by simp
next
  case (Cons row rows)
  obtain idx dst where row: "row = (idx, dst)"
    by (cases row) auto
  with Cons.prems have rng: "- int (length (questions s)) \<le> idx" "idx < int (length (questions s))"
    and rest: "\<forall>(idx, dst)\<in>set rows. - int (length (questions s)) \<le> idx \<and> idx < int (length (questions s))"
    by auto
  from list_get_in_range [OF rng] obtain qv where qv: "list_get (questions s) idx = Inr qv"
    by blast
  from list_get_in_range [of "answers s" idx] rng assms(1)
  obtain av where av: "list_get (answers s) idx = Inr av"
    by auto
  from list_get_in_range [of "sections s" idx] rng assms(2)
  obtain sv where sv: "list_get (sections s) idx = Inr sv"
    by auto
  let ?r = "\<lparr>question = qv, answer = av, section_name = sv, distance = dst, rank = pos + 1\<rparr>"
  from Cons.IH [OF rest, of "Suc pos" "acc @ [?r]"]
  obtain rs where rs: "format_results s (Suc pos) rows (acc @ [?r]) = Inr ((acc @ [?r]) @ rs)"
    "length rs = length rows" "map rank rs = [Suc (Suc pos)..<Suc (Suc pos) + length rows]"
    "map distance rs = map snd rows"
    by blast
  show ?case
  proof (intro exI [of _ "?r # rs"] conjI)
    show "format_results s pos (row # rows) acc = Inr (acc @ ?r # rs)"
      using row rng qv av sv rs(1) by simp
    show "length (?r # rs) = length (row # rows)"
      using rs(2) by simp
    have "[Suc pos..<Suc pos + length (row # rows)] =
        Suc pos # [Suc (Suc pos)..<Suc (Suc pos) + length rows]"
      by (simp add: upt_conv_Cons del: upt_Suc)
    then show "map rank (?r # rs) = [Suc pos..<Suc pos + length (row # rows)]"
      using rs(3) by simp
    show "map distance (?r # rs) = map snd (row # rows)"
      using rs(4) row by simp
  qed
qed

lemma retrieve_fills_every_slot:
  assumes "index s = Some ix" and "model s = Some f" and "f (query_with_prefix q) = Some v"
    and "0 < k" and "length v = d ix"
    and "length (answers s) = length (questions s)" and "length (sections s) = length (questions s)"
    and "ntotal ix \<le> length (questions s)" and "0 < length (questions s)"
  shows "\<exists>rs. fst (retrieve w s q k) = Inr rs \<and> length rs = nat k
              \<and> map rank rs = [1..<Suc (nat k)]"
proof -
  have "\<forall>(idx, dst)\<in>set (search_row ix (normalize_row (float32 w) v) (nat k)).
          - int (length (questions s)) \<le> idx \<and> idx < int (length (questions s))"
  proof (clarify, rule conjI)
    fix idx dst
    assume "(idx, dst) \<in> set (search_row ix (normalize_row (float32 w) v) (nat k))"
    then have l: "idx = - 1 \<or> (0 \<le> idx \<and> idx < int (ntotal ix))"
      by (rule search_row_labels)
    from assms(9) have "1 \<le> int (length (questions s))"
      by (cases "questions s") simp_all
    with l show "- int (length (questions s)) \<le> idx"
      by linarith
    from l assms(8,9) show "idx < int (length (questions s))"
      by auto
  qed
  from format_results_all_slots [OF assms(6,7) this, of 0 "[]"]
  obtain rs where "format_results s 0 (search_row ix (normalize_row (float32 w) v) (nat k)) [] = Inr rs"
    "length rs = nat k" "map rank rs = [1..<Suc (nat k)]"
    by (auto simp: search_row_length)
  with assms(1-5) show ?thesis
    by (simp add: retrieve_unfold)
qed

subsection \<open>build\_index on a complete cache\<close>

text \<open>
  C4 as stated lets a complete cache decide alone. It does not: \<^verbatim>\<open>build_index\<close>
  first tests the policies file, so with a complete cache and no \<^verbatim>\<open>policies.jsonl\<close>
  it raises \<^verbatim>\<open>FileNotFoundError\<close>, reads no artifact and leaves the store empty.
\<close>

theorem build_index_cache_without_corpus_counterexample:
  "cache_complete world_cached ''vector_index''
   \<and> fst (build_index world_cached fresh_store ''policies.jsonl'' ''vector_index'') =
        Inl (FileNotFoundError ''Policies file not found: policies.jsonl'')
   \<and> trace (fst (snd (build_index world_cached fresh_store ''policies.jsonl'' ''vector_index''))) = []
   \<and> questions (snd (snd (build_index world_cached fresh_store ''policies.jsonl'' ''vector_index''))) = []
   \<and> index (snd (snd (build_index world_cached fresh_store ''policies.jsonl'' ''vector_index''))) = None"
  by (simp add: cache_complete_def path_exists_def artifact_paths world_cached_def
      build_index_def ensure_rag_available_def fresh_store_def)

text \<open>
  C4, amended. For every cache directory in which the three artifacts exist,
  \<^verbatim>\<open>build_index\<close> writes no file, and every event it adds is a read of one of the
  three artifacts: no corpus read, no model load, no \<^verbatim>\<open>encode\<close> call, no write.
  What it does there is decided before the cache is looked at: without the dependencies it
  raises \<^verbatim>\<open>ImportError\<close>; if the policies file is absent it raises
  \<^verbatim>\<open>FileNotFoundError\<close>; if \<^verbatim>\<open>os.makedirs\<close> raises, it raises that error;
  in these three cases the world and the store are as they were. Otherwise it does exactly
  what \<^verbatim>\<open>load_index\<close> does. When at least one artifact is missing and
  \<^verbatim>\<open>build_index\<close> returns normally, it has called \<^verbatim>\<open>encode\<close> on the
  questions and written the three artifacts.
\<close>

theorem build_index_cache_wins:
  "(cache_complete w c \<longrightarrow>
      files (fst (snd (build_index w s pf c))) = files w
      \<and> list_all (cache_read c) (new_events w (fst (snd (build_index w s pf c))))
      \<and> (\<not> have_rag w \<longrightarrow> build_index w s pf c = (Inl ImportError, w, s))
      \<and> (have_rag w \<and> \<not> path_exists w pf \<longrightarrow>
            build_index w s pf c =
              (Inl (FileNotFoundError (''Policies file not found: '' @ pf)), w, s))
      \<and> (\<forall>e. have_rag w \<and> path_exists w pf \<and> makedirs w c = Inl e \<longrightarrow>
            build_index w s pf c = (Inl e, w, s))
      \<and> (have_rag w \<and> path_exists w pf \<and> makedirs w c = Inr () \<longrightarrow>
            build_index w s pf c = load_index w s c))
   \<and> (\<not> cache_complete w c \<and> fst (build_index w s pf c) = Inr () \<longrightarrow>
        Encode (map passage (questions (snd (snd (build_index w s pf c)))))
          \<in> set (new_events w (fst (snd (build_index w s pf c))))
        \<and> WriteFile (embeddings_path c) \<in> set (new_events w (fst (snd (build_index w s pf c))))
        \<and> WriteFile (index_path c) \<in> set (new_events w (fst (snd (build_index w s pf c))))
        \<and> WriteFile (metadata_path c) \<in> set (new_events w (fst (snd (build_index w s pf c))))
        \<and> cache_complete (fst (snd (build_index w s pf c))) c)"
proof (intro conjI impI allI)
  assume cc: "cache_complete w c"
  from build_index_complete [OF cc, of s pf] read_artifacts_effects [of w s c]
  show "files (fst (snd (build_index w s pf c))) = files w"
    by auto
  from build_index_complete [OF cc, of s pf] read_artifacts_effects [of w s c]
  show "list_all (cache_read c) (new_events w (fst (snd (build_index w s pf c))))"
    by (auto simp: new_events_def)
  show "build_index w s pf c = (Inl ImportError, w, s)" if "\<not> have_rag w"
    using that by (simp add: build_index_def ensure_rag_available_def)
  show "build_index w s pf c =
          (Inl (FileNotFoundError (''Policies file not found: '' @ pf)), w, s)"
    if "have_rag w \<and> \<not> path_exists w pf"
    using that by (simp add: build_index_def ensure_rag_available_def)
  show "build_index w s pf c = (Inl e, w, s)"
    if "have_rag w \<and> path_exists w pf \<and> makedirs w c = Inl e" for e
    using that by (simp add: build_index_def ensure_rag_available_def)
  show "build_index w s pf c = load_index w s c"
    if "have_rag w \<and> path_exists w pf \<and> makedirs w c = Inr ()"
    using that cc by (simp add: build_index_dispatch load_index_present)
next
  assume a: "\<not> cache_complete w c \<and> fst (build_index w s pf c) = Inr ()"
  let ?w' = "fst (snd (build_index w s pf c))" and ?s' = "snd (snd (build_index w s pf c))"
  from a have "build_index w s pf c = (Inr (), ?w', ?s')"
    by (metis prod.collapse)
  with a have "rebuild w s pf c = (Inr (), ?w', ?s')"
    using build_index_incomplete [of w c s pf ?w' ?s'] by blast
  from rebuild_ok [OF this] obtain raw where
    f: "files ?w' = (files w)
        (embeddings_path c \<mapsto> Vectors (normalize_rows (float32 w) raw),
         index_path c \<mapsto> FaissIndex \<lparr>d = length (hd (normalize_rows (float32 w) raw)),
                                       xb = normalize_rows (float32 w) raw\<rparr>,
         metadata_path c \<mapsto> Metadata [''questions'' \<mapsto> questions ?s', ''answers'' \<mapsto> answers ?s',
                                        ''sections'' \<mapsto> sections ?s'])"
    and t: "trace ?w' = trace w @
       ReadFile pf # (case model s of None \<Rightarrow> [LoadModel (model_name s)] | Some m \<Rightarrow> [])
       @ [Encode (map passage (questions ?s')), WriteFile (embeddings_path c),
          WriteFile (index_path c), WriteFile (metadata_path c)]"
    by blast
  from new_events_eq [OF t]
  show "Encode (map passage (questions ?s')) \<in> set (new_events w ?w')"
    and "WriteFile (embeddings_path c) \<in> set (new_events w ?w')"
    and "WriteFile (index_path c) \<in> set (new_events w ?w')"
    and "WriteFile (metadata_path c) \<in> set (new_events w ?w')"
    by simp_all
  from f show "cache_complete ?w' c"
    by (simp add: cache_complete_def path_exists_def)
qed

theorem build_index_cache_wins_witness:
  "cache_complete world_corpus_cached ''vector_index''
   \<and> have_rag world_corpus_cached \<and> path_exists world_corpus_cached ''policies.jsonl''
   \<and> makedirs world_corpus_cached ''vector_index'' = Inr ()
   \<and> files (fst (snd (build_index world_corpus_cached fresh_store ''policies.jsonl'' ''vector_index'')))
       = files world_corpus_cached
   \<and> build_index world_corpus_cached fresh_store ''policies.jsonl'' ''vector_index''
       = load_index world_corpus_cached fresh_store ''vector_index''
   \<and> cache_complete world_cached ''vector_index''
   \<and> have_rag world_cached \<and> \<not> path_exists world_cached ''policies.jsonl''
   \<and> build_index world_cached fresh_store ''policies.jsonl'' ''vector_index''
       = (Inl (FileNotFoundError ''Policies file not found: policies.jsonl''),
          world_cached, fresh_store)
   \<and> cache_complete world_flat []
   \<and> have_rag world_flat \<and> path_exists world_flat ''policies.jsonl''
   \<and> makedirs world_flat [] = Inl (FileNotFoundError [])
   \<and> build_index world_flat fresh_store ''policies.jsonl'' []
       = (Inl (FileNotFoundError []), world_flat, fresh_store)
   \<and> \<not> cache_complete world_corpus ''vector_index''
   \<and> fst (build_index world_corpus fresh_store ''policies.jsonl'' ''vector_index'') = Inr ()
   \<and> Encode [''passage: Can I bring a pet?'']
       \<in> set (new_events world_corpus
                (fst (snd (build_index world_corpus fresh_store ''policies.jsonl'' ''vector_index''))))
   \<and> cache_complete
        (fst (snd (build_index world_corpus fresh_store ''policies.jsonl'' ''vector_index'')))
        ''vector_index''"
proof -
  have c1: "cache_complete world_corpus_cached ''vector_index''"
    by (simp add: cache_complete_def path_exists_def artifact_paths world_corpus_cached_def)
  have h1: "have_rag world_corpus_cached \<and> path_exists world_corpus_cached ''policies.jsonl''
            \<and> makedirs world_corpus_cached ''vector_index'' = Inr ()"
    by (simp add: path_exists_def makedirs_def world_corpus_cached_def)
  have c3: "cache_complete world_cached ''vector_index''"
    by (simp add: cache_complete_def path_exists_def artifact_paths world_cached_def)
  have h3: "have_rag world_cached \<and> \<not> path_exists world_cached ''policies.jsonl''"
    by (simp add: path_exists_def world_cached_def)
  have c4: "cache_complete world_flat []"
    by (simp add: cache_complete_def path_exists_def embeddings_path_def index_path_def
        metadata_path_def path_join_def world_flat_def)
  have h4: "have_rag world_flat \<and> path_exists world_flat ''policies.jsonl''
            \<and> makedirs world_flat [] = Inl (FileNotFoundError [])"
    by (simp add: path_exists_def makedirs_def world_flat_def)
  have c2: "\<not> cache_complete world_corpus ''vector_index''"
    by (simp add: cache_complete_def path_exists_def artifact_paths world_corpus_def)
  have b2: "fst (build_index world_corpus fresh_store ''policies.jsonl'' ''vector_index'') = Inr ()"
    by (simp add: build_index_world_corpus)
  have q2: "map passage (questions (snd (snd (build_index world_corpus fresh_store
              ''policies.jsonl'' ''vector_index'')))) = [''passage: Can I bring a pet?'']"
    by (simp add: build_index_world_corpus store_built_def passage_def)
  from build_index_cache_wins [of world_corpus_cached "''vector_index''" fresh_store
      "''policies.jsonl''"] c1 h1
  have r1: "files (fst (snd (build_index world_corpus_cached fresh_store ''policies.jsonl''
          ''vector_index''))) = files world_corpus_cached"
    "build_index world_corpus_cached fresh_store ''policies.jsonl'' ''vector_index''
           = load_index world_corpus_cached fresh_store ''vector_index''"
    by blast+
  from build_index_cache_wins [of world_cached "''vector_index''" fresh_store
      "''policies.jsonl''"] c3 h3
  have r3: "build_index world_cached fresh_store ''policies.jsonl'' ''vector_index''
       = (Inl (FileNotFoundError (''Policies file not found: '' @ ''policies.jsonl'')),
          world_cached, fresh_store)"
    by blast
  from build_index_cache_wins [of world_flat "[]" fresh_store "''policies.jsonl''"] c4 h4
  have r4: "build_index world_flat fresh_store ''policies.jsonl'' []
       = (Inl (FileNotFoundError []), world_flat, fresh_store)"
    by blast
  from build_index_cache_wins [of world_corpus "''vector_index''" fresh_store
      "''policies.jsonl''"] c2 b2
  have r2: "Encode (map passage (questions (snd (snd (build_index world_corpus fresh_store
              ''policies.jsonl'' ''vector_index'')))))
       \<in> set (new_events world_corpus
                (fst (snd (build_index world_corpus fresh_store ''policies.jsonl'' ''vector_index''))))"
    "cache_complete
        (fst (snd (build_index world_corpus fresh_store ''policies.jsonl'' ''vector_index'')))
        ''vector_index''"
    by blast+
  from r3 have r3': "build_index world_cached fresh_store ''policies.jsonl'' ''vector_index''
       = (Inl (FileNotFoundError ''Policies file not found: policies.jsonl''),
          world_cached, fresh_store)"
    by simp
  from r2(1) q2 have r2': "Encode [''passage: Can I bring a pet?'']
       \<in> set (new_events world_corpus
                (fst (snd (build_index world_corpus fresh_store ''policies.jsonl'' ''vector_index''))))"
    by simp
  from c1 h1 r1 c3 h3 r3' c4 h4 r4 c2 b2 r2' r2(2) show ?thesis
    by (intro conjI) blast+
qed

subsection \<open>build\_index and the lines of the corpus\<close>

text \<open>
  C5, amended. On the rebuild path (dependencies importable, the policies file a text file of
  lines, \<^verbatim>\<open>os.makedirs\<close> succeeds on the cache directory, an artifact missing): a line that is not JSON aborts \<^verbatim>\<open>build_index\<close> with
  \<^verbatim>\<open>JSONDecodeError\<close>; blank lines and objects lacking \<open>question\<close> or
  \<open>answer\<close> are skipped; the \<^verbatim>\<open>ValueError\<close> for an empty corpus is raised if and only
  if every line parses, no row raises \<^verbatim>\<open>TypeError\<close> and no line yields both a question
  and an answer; and when \<^verbatim>\<open>build_index\<close> returns normally, the three arrays are the
  usable records in file order.
\<close>

theorem build_index_corpus_lines:
  assumes "have_rag w" and "files w pf = Some (Corpus ls)" and "makedirs w c = Inr ()"
    and "\<not> cache_complete w c"
  shows "(Malformed \<in> set ls \<longrightarrow> fst (build_index w s pf c) = Inl JSONDecodeError)
       \<and> ((fst (build_index w s pf c) = Inl (ValueError ''No Q&A pairs found in policies file''))
            = (Malformed \<notin> set ls \<and> (\<forall>item\<in>set (json_rows ls). \<not> type_error_row item)
               \<and> usable_records ls = []))
       \<and> (fst (build_index w s pf c) = Inr () \<longrightarrow>
            questions (snd (snd (build_index w s pf c))) = map fst (usable_records ls)
            \<and> answers (snd (snd (build_index w s pf c))) = map (fst \<circ> snd) (usable_records ls)
            \<and> sections (snd (snd (build_index w s pf c))) = map (snd \<circ> snd) (usable_records ls))"
proof -
  from assms have b: "build_index w s pf c = rebuild w s pf c"
    by (simp add: build_index_dispatch path_exists_def)
  have 1: "Malformed \<in> set ls \<longrightarrow> fst (build_index w s pf c) = Inl JSONDecodeError"
    using assms(2) b by (simp add: rebuild_malformed)
  have 2: "(fst (build_index w s pf c) = Inl (ValueError ''No Q&A pairs found in policies file''))
            = (Malformed \<notin> set ls \<and> (\<forall>item\<in>set (json_rows ls). \<not> type_error_row item)
               \<and> usable_records ls = [])"
  proof (cases "Malformed \<in> set ls")
    case True
    with 1 show ?thesis by simp
  next
    case nm: False
    show ?thesis
    proof (cases "\<exists>item\<in>set (json_rows ls). type_error_row item")
      case True
      from rebuild_type_error [OF assms(2) nm True, of s c] b True show ?thesis
        by auto
    next
      case False
      then have ok: "\<forall>item\<in>set (json_rows ls). \<not> type_error_row item"
        by simp
      from rebuild_rows_ok [OF assms(2) nm ok, of s c] b nm ok show ?thesis
        by (simp add: embed_and_save_no_value_error)
    qed
  qed
  have 3: "fst (build_index w s pf c) = Inr () \<longrightarrow>
            questions (snd (snd (build_index w s pf c))) = map fst (usable_records ls)
            \<and> answers (snd (snd (build_index w s pf c))) = map (fst \<circ> snd) (usable_records ls)
            \<and> sections (snd (snd (build_index w s pf c))) = map (snd \<circ> snd) (usable_records ls)"
  proof
    assume "fst (build_index w s pf c) = Inr ()"
    with b have "rebuild w s pf c =
        (Inr (), fst (snd (build_index w s pf c)), snd (snd (build_index w s pf c)))"
      by (metis prod.collapse)
    from rebuild_ok [OF this] obtain ls' where
      "files w pf = Some (Corpus ls')"
      "questions (snd (snd (build_index w s pf c))) = map fst (usable_records ls')"
      "answers (snd (snd (build_index w s pf c))) = map (fst \<circ> snd) (usable_records ls')"
      "sections (snd (snd (build_index w s pf c))) = map (snd \<circ> snd) (usable_records ls')"
      by blast
    with assms(2)
    show "questions (snd (snd (build_index w s pf c))) = map fst (usable_records ls)
            \<and> answers (snd (snd (build_index w s pf c))) = map (fst \<circ> snd) (usable_records ls)
            \<and> sections (snd (snd (build_index w s pf c))) = map (snd \<circ> snd) (usable_records ls)"
      by simp
  qed
  from 1 2 3 show ?thesis
    by blast
qed



theorem build_index_corpus_lines_witness:
  "have_rag world_malformed
   \<and> files world_malformed ''policies.jsonl'' = Some (Corpus [Malformed, Json pet_record])
   \<and> makedirs world_malformed ''vector_index'' = Inr ()
   \<and> \<not> cache_complete world_malformed ''vector_index''
   \<and> fst (build_index world_malformed fresh_store ''policies.jsonl'' ''vector_index'') =
        Inl JSONDecodeError
   \<and> have_rag world_no_pairs
   \<and> files world_no_pairs ''policies.jsonl'' =
        Some (Corpus [Blank, Json (JObject [''question'' \<mapsto> ''Can I bring a pet?''])])
   \<and> makedirs world_no_pairs ''vector_index'' = Inr ()
   \<and> \<not> cache_complete world_no_pairs ''vector_index''
   \<and> fst (build_index world_no_pairs fresh_store ''policies.jsonl'' ''vector_index'') =
        Inl (ValueError ''No Q&A pairs found in policies file'')
   \<and> have_rag world_corpus
   \<and> files world_corpus ''policies.jsonl'' = Some (Corpus [Json pet_record])
   \<and> makedirs world_corpus ''vector_index'' = Inr ()
   \<and> \<not> cache_complete world_corpus ''vector_index''
   \<and> fst (build_index world_corpus fresh_store ''policies.jsonl'' ''vector_index'') = Inr ()
   \<and> questions (snd (snd (build_index world_corpus fresh_store ''policies.jsonl'' ''vector_index'')))
        = [''Can I bring a pet?'']"
proof -
  have m: "have_rag world_malformed"
    "files world_malformed ''policies.jsonl'' = Some (Corpus [Malformed, Json pet_record])"
    "makedirs world_malformed ''vector_index'' = Inr ()"
    "\<not> cache_complete world_malformed ''vector_index''"
    by (simp_all add: world_malformed_def path_exists_def makedirs_def cache_complete_def artifact_paths)
  have n: "have_rag world_no_pairs"
    "files world_no_pairs ''policies.jsonl'' =
        Some (Corpus [Blank, Json (JObject [''question'' \<mapsto> ''Can I bring a pet?''])])"
    "makedirs world_no_pairs ''vector_index'' = Inr ()"
    "\<not> cache_complete world_no_pairs ''vector_index''"
    by (simp_all add: world_no_pairs_def path_exists_def makedirs_def cache_complete_def artifact_paths)
  have p: "have_rag world_corpus"
    "files world_corpus ''policies.jsonl'' = Some (Corpus [Json pet_record])"
    "makedirs world_corpus ''vector_index'' = Inr ()"
    "\<not> cache_complete world_corpus ''vector_index''"
    by (simp_all add: world_corpus_def path_exists_def makedirs_def cache_complete_def artifact_paths)
  have u: "usable_records [Blank, Json (JObject [''question'' \<mapsto> ''Can I bring a pet?''])] = []"
    "usable_records [Json pet_record] =
       [(''Can I bring a pet?'', ''Yes, in-cabin pets allowed for a fee.'', ''Pets'')]"
    by (simp_all add: usable_records_def pet_record_def)
  have ok: "fst (build_index world_corpus fresh_store ''policies.jsonl'' ''vector_index'') = Inr ()"
    by (simp add: build_index_world_corpus)
  from build_index_corpus_lines [OF m, of fresh_store]
  have 1: "fst (build_index world_malformed fresh_store ''policies.jsonl'' ''vector_index'') =
        Inl JSONDecodeError"
    by simp
  from build_index_corpus_lines [OF n, of fresh_store] u(1)
  have 2: "fst (build_index world_no_pairs fresh_store ''policies.jsonl'' ''vector_index'') =
        Inl (ValueError ''No Q&A pairs found in policies file'')"
    by simp
  from build_index_corpus_lines [OF p, of fresh_store] ok u(2)
  have 3: "questions (snd (snd (build_index world_corpus fresh_store ''policies.jsonl''
             ''vector_index''))) = [''Can I bring a pet?'']"
    by simp
  from m n p ok 1 2 3 show ?thesis
    by simp
qed

subsection \<open>get\_context\_for\_query\<close>











end
